theory Spec2Isabelle
  imports Main "HOL-Library.Sublist"
begin

section \<open>Values, exceptions and the process state\<close>

text \<open>
  Embedding of \<^verbatim>\<open>kuryr_kubernetes/clients.py\<close>. Python values that travel through the
  module as JSON (request bodies, decoded responses, the arguments of exceptions) are
  values of \<open>json\<close>; a Python dict is an association list looked up with \<open>map_of\<close>
  (keys are taken to be distinct, as they are in a dict), and numbers are integers.
  Names of the module that start with an underscore are written without it.
\<close>

datatype json =
    JNull
  | JBool bool
  | JInt int
  | JStr string
  | JList "json list"
  | JDict "(string \<times> json) list"

text \<open>
  The exact class of an \<^verbatim>\<open>openstack.exceptions.HttpException\<close>. All of them derive
  from \<^verbatim>\<open>SDKException\<close>.
\<close>

datatype http_class =
  Generic | NotFound | BadRequest | Conflict | PreconditionFailed | Forbidden

text \<open>
  Every raise of the module is a value of \<open>exc\<close>. \<open>KeyError\<close> carries the missing key,
  \<open>SDKException\<close> its two positional arguments (\<^verbatim>\<open>message\<close>, \<^verbatim>\<open>extra_data\<close>),
  \<open>HttpException\<close> its exact class, its message and its HTTP status. The last two
  constructors are the error kinds that the specification's taxonomy names next to these;
  no statement of the module constructs them.
\<close>

datatype exc =
    KeyError string
  | TypeError
  | ValueError
  | AttributeError
  | SDKException json json
  | HttpException http_class json "nat option"
  | NotInitialized
  | MissingConfiguration

fun py_truthy :: "json \<Rightarrow> bool" where
  \<comment> \<open>Python's truth test\<close>
  "py_truthy JNull = False"
| "py_truthy (JBool b) = b"
| "py_truthy (JInt i) = (i \<noteq> 0)"
| "py_truthy (JStr s) = (s \<noteq> [])"
| "py_truthy (JList xs) = (xs \<noteq> [])"
| "py_truthy (JDict d) = (d \<noteq> [])"

fun http_class_name :: "http_class \<Rightarrow> string" where
  "http_class_name Generic = ''HttpException''"
| "http_class_name NotFound = ''NotFoundException''"
| "http_class_name BadRequest = ''BadRequestException''"
| "http_class_name Conflict = ''ConflictException''"
| "http_class_name PreconditionFailed = ''PreconditionFailedException''"
| "http_class_name Forbidden = ''ForbiddenException''"

fun dec_str :: "nat \<Rightarrow> string" where
  \<comment> \<open>\<^verbatim>\<open>str(n)\<close>\<close>
  "dec_str n =
     (if n < 10 then [''0123456789'' ! n]
      else dec_str (n div 10) @ [''0123456789'' ! (n mod 10)])"

declare dec_str.simps [simp del]

definition HttpException_init :: "http_class \<Rightarrow> json \<Rightarrow> nat option \<Rightarrow> exc" where
  \<comment> \<open>the constructor of the SDK's HTTP exceptions: a message that is not given (or is
      false) is replaced by the class name followed by the status of the response, or by
      \<^verbatim>\<open>Unknown error\<close> when there is no response\<close>
  "HttpException_init cls message status =
     HttpException cls
       (if py_truthy message then message
        else JStr (http_class_name cls @ '': '' @
                   (case status of Some code \<Rightarrow> dec_str code | None \<Rightarrow> ''Unknown error'')))
       status"

definition NotFoundException :: "json \<Rightarrow> exc" where
  \<comment> \<open>\<^verbatim>\<open>os_exc.NotFoundException(message=m)\<close>\<close>
  "NotFoundException m = HttpException_init NotFound m None"

fun is_SDKException :: "exc \<Rightarrow> bool" where
  \<comment> \<open>\<^verbatim>\<open>isinstance(e, os_exc.SDKException)\<close>\<close>
  "is_SDKException (SDKException m x) = True"
| "is_SDKException (HttpException c m s) = True"
| "is_SDKException e = False"

fun is_NotFoundException :: "exc \<Rightarrow> bool" where
  \<comment> \<open>\<^verbatim>\<open>isinstance(e, os_exc.NotFoundException)\<close>\<close>
  "is_NotFoundException (HttpException c m s) = (c = NotFound)"
| "is_NotFoundException e = False"

type_synonym ref = nat

text \<open>The three functions that \<^verbatim>\<open>setup_openstacksdk\<close> binds with \<^verbatim>\<open>functools.partial\<close>.\<close>

datatype func = F_create_ports | F_add_trunk_subports | F_delete_trunk_subports

datatype callable = Partial func ref

text \<open>
  Modelled from the spec: the classes \<^verbatim>\<open>k8s_client.K8sClient\<close> and
  \<^verbatim>\<open>pod_resources.client.PodResourcesClient\<close> of the repository, and the library objects
  (\<^verbatim>\<open>kuryr.lib.utils.get_neutron_client()\<close>, \<^verbatim>\<open>openstack.connection.Connection\<close> and its
  service proxies) are not under src/. A handle is an object of the heap that records what
  it was constructed from; a connection refers to its three sub-clients, and a proxy
  carries the instance attributes that have been set on it.
\<close>

datatype obj =
    NeutronClient
  | K8sClient string
  | PodResourcesClient string
  | Connection (conn_session: nat) (conn_region: "string option")
      (conn_network: ref) (conn_load_balancer: ref) (conn_compute: ref)
  | Proxy (proxy_service: string) (proxy_attrs: "string \<rightharpoonup> callable")

text \<open>
  The process state: the module-level dict \<^verbatim>\<open>_clients\<close>, the objects it refers to, the
  next free reference, and the deprecation warnings emitted so far.
\<close>

record world =
  clients :: "string \<rightharpoonup> ref"
  heap :: "ref \<rightharpoonup> obj"
  next_ref :: ref
  warnings :: "string list"

definition initial_world :: world where
  \<comment> \<open>\<^verbatim>\<open>_clients = {}\<close>\<close>
  "initial_world = \<lparr>clients = Map.empty, heap = Map.empty, next_ref = 0, warnings = []\<rparr>"

definition NEUTRON_CLIENT :: string where "NEUTRON_CLIENT = ''neutron-client''"
definition KUBERNETES_CLIENT :: string where "KUBERNETES_CLIENT = ''kubernetes-client''"
definition OPENSTACKSDK :: string where "OPENSTACKSDK = ''openstacksdk''"
definition POD_RESOURCES_CLIENT :: string where "POD_RESOURCES_CLIENT = ''pod-resources-client''"

text \<open>What the functions read from outside the module: configuration, the process
  environment, and the outcomes of the library calls that build sessions and clients.\<close>

record environment =
  conf_kubernetes_api_root :: "string option"
  conf_neutron_region_name :: "string option"
  conf_sriov_kubelet_root_dir :: string
  environ :: "string \<rightharpoonup> string"
  utils_get_neutron_client :: "exc + unit"
  utils_get_auth_plugin :: "string \<Rightarrow> exc + nat"
  utils_get_keystone_session :: "string \<Rightarrow> nat \<Rightarrow> exc + nat"

section \<open>Registry primitives\<close>

definition subscript_clients :: "string \<Rightarrow> world \<Rightarrow> exc + ref" where
  \<comment> \<open>\<^verbatim>\<open>_clients[key]\<close>: a missing key raises \<^verbatim>\<open>KeyError(key)\<close>\<close>
  "subscript_clients key w =
     (case clients w key of None \<Rightarrow> Inl (KeyError key) | Some r \<Rightarrow> Inr r)"

definition store_client :: "string \<Rightarrow> ref \<Rightarrow> world \<Rightarrow> world" where
  \<comment> \<open>\<^verbatim>\<open>_clients[key] = r\<close>\<close>
  "store_client key r w = w\<lparr>clients := (clients w)(key \<mapsto> r)\<rparr>"

definition alloc :: "obj \<Rightarrow> world \<Rightarrow> ref \<times> world" where
  \<comment> \<open>a constructor call: a new object at a fresh reference\<close>
  "alloc ob w =
     (next_ref w, w\<lparr>heap := (heap w)(next_ref w \<mapsto> ob), next_ref := Suc (next_ref w)\<rparr>)"

definition attr_of_connection :: "(obj \<Rightarrow> ref) \<Rightarrow> ref \<Rightarrow> world \<Rightarrow> exc + ref" where
  \<comment> \<open>\<^verbatim>\<open>conn.network\<close>, \<^verbatim>\<open>conn.load_balancer\<close>, \<^verbatim>\<open>conn.compute\<close>\<close>
  "attr_of_connection sel r w =
     (case heap w r of
        Some (Connection s rg n l c) \<Rightarrow> Inr (sel (Connection s rg n l c))
      | _ \<Rightarrow> Inl AttributeError)"

section \<open>Accessors\<close>

text \<open>An accessor returns its result (or the exception it raises) together with the
  state it leaves behind.\<close>

definition get_openstacksdk :: "world \<Rightarrow> (exc + ref) \<times> world" where
  "get_openstacksdk w = (subscript_clients OPENSTACKSDK w, w)"

definition get_network_client :: "world \<Rightarrow> (exc + ref) \<times> world" where
  "get_network_client w =
     (case subscript_clients OPENSTACKSDK w of
        Inl e \<Rightarrow> (Inl e, w)
      | Inr conn \<Rightarrow> (attr_of_connection conn_network conn w, w))"

definition removals_remove ::
  "string \<Rightarrow> (world \<Rightarrow> (exc + ref) \<times> world) \<Rightarrow> world \<Rightarrow> (exc + ref) \<times> world" where
  \<comment> \<open>Modelled from the spec: the decorator \<^verbatim>\<open>debtcollector.removals.remove\<close> is a
      library function, not under src/. Each call of the wrapped function first emits a
      deprecation warning that names it, then runs the function.\<close>
  "removals_remove name f w = f (w\<lparr>warnings := warnings w @ [name]\<rparr>)"

definition get_neutron_client :: "world \<Rightarrow> (exc + ref) \<times> world" where
  "get_neutron_client =
     removals_remove ''get_neutron_client'' (\<lambda>w. (subscript_clients NEUTRON_CLIENT w, w))"

definition get_loadbalancer_client :: "world \<Rightarrow> (exc + ref) \<times> world" where
  "get_loadbalancer_client w =
     (case get_openstacksdk w of
        (Inl e, w') \<Rightarrow> (Inl e, w')
      | (Inr conn, w') \<Rightarrow> (attr_of_connection conn_load_balancer conn w', w'))"

definition get_kubernetes_client :: "world \<Rightarrow> (exc + ref) \<times> world" where
  "get_kubernetes_client w = (subscript_clients KUBERNETES_CLIENT w, w)"

definition get_pod_resources_client :: "world \<Rightarrow> (exc + ref) \<times> world" where
  "get_pod_resources_client w = (subscript_clients POD_RESOURCES_CLIENT w, w)"

definition get_compute_client :: "world \<Rightarrow> (exc + ref) \<times> world" where
  "get_compute_client w =
     (case subscript_clients OPENSTACKSDK w of
        Inl e \<Rightarrow> (Inl e, w)
      | Inr conn \<Rightarrow> (attr_of_connection conn_compute conn w, w))"

section \<open>The standard library's address parser\<close>

text \<open>
  \<^verbatim>\<open>ipaddress.ip_address\<close> belongs to the Python standard library, not to the repository;
  the definitions below follow CPython's \<^verbatim>\<open>ipaddress\<close> module (3.9 and later) on \<^verbatim>\<open>str\<close>
  input. A failed parse (\<^verbatim>\<open>AddressValueError\<close>) is \<open>None\<close> inside the parser and the
  \<^verbatim>\<open>ValueError\<close> of \<open>ip_address\<close> at the end.
\<close>

fun split_on :: "char \<Rightarrow> string \<Rightarrow> string list" where
  \<comment> \<open>\<^verbatim>\<open>s.split(c)\<close>\<close>
  "split_on c [] = [[]]"
| "split_on c (x # xs) =
     (if x = c then [] # split_on c xs
      else (case split_on c xs of [] \<Rightarrow> [[x]] | p # ps \<Rightarrow> (x # p) # ps))"

definition is_digit :: "char \<Rightarrow> bool" where
  "is_digit c = (c \<in> set ''0123456789'')"

definition is_hex_digit :: "char \<Rightarrow> bool" where
  "is_hex_digit c = (c \<in> set ''0123456789ABCDEFabcdef'')"

definition hex_val :: "char \<Rightarrow> int" where
  "hex_val c =
     (if is_digit c then of_char c - 48
      else if c \<in> set ''abcdef'' then of_char c - 87
      else of_char c - 55)"

definition int_of_str :: "int \<Rightarrow> string \<Rightarrow> int" where
  \<comment> \<open>\<^verbatim>\<open>int(s, base)\<close> on a string of digits of that base\<close>
  "int_of_str base s = foldl (\<lambda>a c. base * a + hex_val c) 0 s"

definition parse_octet :: "string \<Rightarrow> int option" where
  "parse_octet octet_str =
     (if octet_str = [] then None
      else if \<not> list_all is_digit octet_str then None
      else if length octet_str > 3 then None
      else if octet_str \<noteq> ''0'' \<and> hd octet_str = CHR ''0'' then None
      else if int_of_str 10 octet_str > 255 then None
      else Some (int_of_str 10 octet_str))"

definition ipv4_int_from_string :: "string \<Rightarrow> int option" where
  "ipv4_int_from_string ip_str =
     (if ip_str = [] then None
      else let octets = split_on CHR ''.'' ip_str in
        if length octets \<noteq> 4 then None
        else if list_all (\<lambda>octet. parse_octet octet \<noteq> None) octets
        then Some (foldl (\<lambda>a octet. 256 * a + (case parse_octet octet of Some v \<Rightarrow> v | None \<Rightarrow> 0))
                     0 octets)
        else None)"

definition IPv4Address_init :: "string \<Rightarrow> int option" where
  \<comment> \<open>\<^verbatim>\<open>IPv4Address(addr_str)._ip\<close>\<close>
  "IPv4Address_init addr_str =
     (if CHR ''/'' \<in> set addr_str then None else ipv4_int_from_string addr_str)"

definition parse_hextet :: "string \<Rightarrow> int option" where
  "parse_hextet hextet_str =
     (if \<not> list_all is_hex_digit hextet_str then None
      else if length hextet_str > 4 then None
      else if hextet_str = [] then None
      else Some (int_of_str 16 hextet_str))"

function hex_str :: "int \<Rightarrow> string" where
  \<comment> \<open>\<^verbatim>\<open>'%x' % n\<close> for \<open>n \<ge> 0\<close>\<close>
  "hex_str n =
     (if n < 16 then [''0123456789abcdef'' ! nat n]
      else hex_str (n div 16) @ [''0123456789abcdef'' ! nat (n mod 16)])"
  by pat_completeness auto
termination
  by (relation "measure nat") auto

declare hex_str.simps [simp del]

definition hextets_value :: "string list \<Rightarrow> int option" where
  \<comment> \<open>the loop \<^verbatim>\<open>ip_int <<= 16; ip_int |= parse_hextet(part)\<close> over a run of parts\<close>
  "hextets_value ps =
     (if list_all (\<lambda>p. parse_hextet p \<noteq> None) ps
      then Some (foldl (\<lambda>a p. 65536 * a + (case parse_hextet p of Some v \<Rightarrow> v | None \<Rightarrow> 0)) 0 ps)
      else None)"

definition ipv6_with_v4_suffix :: "string list \<Rightarrow> string list option" where
  \<comment> \<open>an IPv4-style last part is replaced by its two hextets\<close>
  "ipv6_with_v4_suffix parts =
     (if CHR ''.'' \<in> set (last parts)
      then (case IPv4Address_init (last parts) of
              None \<Rightarrow> None
            | Some ipv4_int \<Rightarrow>
                Some (butlast parts @
                      [hex_str ((ipv4_int div 65536) mod 65536), hex_str (ipv4_int mod 65536)]))
      else Some parts)"

definition ipv6_from_parts :: "string list \<Rightarrow> int option" where
  "ipv6_from_parts parts =
     (let n = length parts in
      if n > 9 then None
      else
        (case filter (\<lambda>i. parts ! i = []) [1 ..< n - 1] of
           [] \<Rightarrow>
             if n \<noteq> 8 then None
             else if parts ! 0 = [] then None
             else if last parts = [] then None
             else hextets_value parts
         | [skip_index] \<Rightarrow>
             let parts_hi = (if parts ! 0 = [] then skip_index - 1 else skip_index);
                 parts_lo = (if last parts = [] then n - skip_index - 1 - 1
                             else n - skip_index - 1)
             in
               if parts ! 0 = [] \<and> parts_hi \<noteq> 0 then None
               else if last parts = [] \<and> parts_lo \<noteq> 0 then None
               else if 8 \<le> parts_hi + parts_lo then None
               else
                 (case (hextets_value (take parts_hi parts),
                        hextets_value (drop (n - parts_lo) parts)) of
                    (Some hi, Some lo) \<Rightarrow>
                      Some (hi * 65536 ^ (8 - (parts_hi + parts_lo)) * 65536 ^ parts_lo + lo)
                  | _ \<Rightarrow> None)
         | _ \<Rightarrow> None))"

definition ipv6_int_from_string :: "string \<Rightarrow> int option" where
  "ipv6_int_from_string ip_str =
     (if ip_str = [] then None
      else let parts = split_on CHR '':'' ip_str in
        if length parts < 3 then None
        else (case ipv6_with_v4_suffix parts of
                None \<Rightarrow> None
              | Some parts' \<Rightarrow> ipv6_from_parts parts'))"

definition split_scope_id :: "string \<Rightarrow> (string \<times> string option) option" where
  \<comment> \<open>\<^verbatim>\<open>ip_str.partition('%')\<close>, then the checks on the scope\<close>
  "split_scope_id ip_str =
     (let addr = takeWhile (\<lambda>c. c \<noteq> CHR ''%'') ip_str;
          rest = dropWhile (\<lambda>c. c \<noteq> CHR ''%'') ip_str
      in if rest = [] then Some (addr, None)
         else if tl rest = [] \<or> CHR ''%'' \<in> set (tl rest) then None
         else Some (addr, Some (tl rest)))"

definition IPv6Address_init :: "string \<Rightarrow> (int \<times> string option) option" where
  "IPv6Address_init addr_str =
     (if CHR ''/'' \<in> set addr_str then None
      else (case split_scope_id addr_str of
              None \<Rightarrow> None
            | Some (addr, scope_id) \<Rightarrow>
                (case ipv6_int_from_string addr of
                   None \<Rightarrow> None
                 | Some ip \<Rightarrow> Some (ip, scope_id))))"

datatype ip_addr = IPv4Address int | IPv6Address int "string option"

fun version :: "ip_addr \<Rightarrow> nat" where
  "version (IPv4Address ip) = 4"
| "version (IPv6Address ip scope_id) = 6"

definition ip_address :: "string \<Rightarrow> exc + ip_addr" where
  "ip_address address =
     (case IPv4Address_init address of
        Some ip \<Rightarrow> Inr (IPv4Address ip)
      | None \<Rightarrow>
          (case IPv6Address_init address of
             Some (ip, scope_id) \<Rightarrow> Inr (IPv6Address ip scope_id)
           | None \<Rightarrow> Inl ValueError))"

section \<open>Client factories\<close>

definition setup_neutron_client :: "environment \<Rightarrow> world \<Rightarrow> (exc + unit) \<times> world" where
  "setup_neutron_client env w =
     (case utils_get_neutron_client env of
        Inl e \<Rightarrow> (Inl e, w)
      | Inr u \<Rightarrow>
          (case alloc NeutronClient w of
             (r, w') \<Rightarrow> (Inr (), store_client NEUTRON_CLIENT r w')))"

definition subscript_environ :: "environment \<Rightarrow> string \<Rightarrow> exc + string" where
  \<comment> \<open>\<^verbatim>\<open>os.environ[key]\<close>\<close>
  "subscript_environ env key =
     (case environ env key of None \<Rightarrow> Inl (KeyError key) | Some v \<Rightarrow> Inr v)"

definition bracket_host :: "string \<Rightarrow> exc + string" where
  \<comment> \<open>the \<^verbatim>\<open>try\<close> block: only \<^verbatim>\<open>ValueError\<close> is caught\<close>
  "bracket_host host =
     (case ip_address host of
        Inr addr \<Rightarrow> Inr (if version addr = 6 then ''['' @ host @ '']'' else host)
      | Inl e \<Rightarrow> if e = ValueError then Inr host else Inl e)"

definition api_root :: "environment \<Rightarrow> exc + string" where
  \<comment> \<open>the local \<^verbatim>\<open>api_root\<close> of \<^verbatim>\<open>setup_kubernetes_client\<close>; \<^verbatim>\<open>None\<close> and the empty
      string are the false values of the configuration option\<close>
  "api_root env =
     (case conf_kubernetes_api_root env of
        Some (c # cs) \<Rightarrow> Inr (c # cs)
      | _ \<Rightarrow>
          (case subscript_environ env ''KUBERNETES_SERVICE_HOST'' of
             Inl e \<Rightarrow> Inl e
           | Inr host \<Rightarrow>
               (case subscript_environ env ''KUBERNETES_SERVICE_PORT_HTTPS'' of
                  Inl e \<Rightarrow> Inl e
                | Inr port \<Rightarrow>
                    (case bracket_host host of
                       Inl e \<Rightarrow> Inl e
                     | Inr host' \<Rightarrow> Inr (''https://'' @ host' @ '':'' @ port)))))"

definition setup_kubernetes_client :: "environment \<Rightarrow> world \<Rightarrow> (exc + unit) \<times> world" where
  "setup_kubernetes_client env w =
     (case api_root env of
        Inl e \<Rightarrow> (Inl e, w)
      | Inr root \<Rightarrow>
          (case alloc (K8sClient root) w of
             (r, w') \<Rightarrow> (Inr (), store_client KUBERNETES_CLIENT r w')))"

definition Connection_init :: "nat \<Rightarrow> string option \<Rightarrow> world \<Rightarrow> ref \<times> world" where
  \<comment> \<open>\<^verbatim>\<open>connection.Connection(session=..., region_name=...)\<close>: the connection and its
      sub-clients, none of which carries an instance attribute yet\<close>
  "Connection_init session region w =
     (case alloc (Proxy ''network'' Map.empty) w of (n, w1) \<Rightarrow>
      case alloc (Proxy ''load_balancer'' Map.empty) w1 of (l, w2) \<Rightarrow>
      case alloc (Proxy ''compute'' Map.empty) w2 of (c, w3) \<Rightarrow>
        alloc (Connection session region n l c) w3)"

definition set_network_attr :: "ref \<Rightarrow> string \<Rightarrow> func \<Rightarrow> world \<Rightarrow> world" where
  \<comment> \<open>\<^verbatim>\<open>conn.network.name = partial(f, conn.network)\<close>\<close>
  "set_network_attr conn name f w =
     (case heap w conn of
        Some (Connection s rg n l c) \<Rightarrow>
          (case heap w n of
             Some (Proxy svc attrs) \<Rightarrow>
               w\<lparr>heap := (heap w)(n \<mapsto> Proxy svc (attrs(name \<mapsto> Partial f n)))\<rparr>
           | _ \<Rightarrow> w)
      | _ \<Rightarrow> w)"

definition openstacksdk_stmts :: "ref \<Rightarrow> (world \<Rightarrow> world) list" where
  \<comment> \<open>the four statements of \<^verbatim>\<open>setup_openstacksdk\<close> after \<^verbatim>\<open>conn\<close> is built, in order\<close>
  "openstacksdk_stmts conn =
     [set_network_attr conn ''create_ports'' F_create_ports,
      set_network_attr conn ''add_trunk_subports'' F_add_trunk_subports,
      set_network_attr conn ''delete_trunk_subports'' F_delete_trunk_subports,
      store_client OPENSTACKSDK conn]"

definition exec :: "(world \<Rightarrow> world) list \<Rightarrow> world \<Rightarrow> world" where
  \<comment> \<open>statements run one after the other\<close>
  "exec stmts w = foldl (\<lambda>w stmt. stmt w) w stmts"

definition setup_openstacksdk :: "environment \<Rightarrow> world \<Rightarrow> (exc + unit) \<times> world" where
  "setup_openstacksdk env w =
     (case utils_get_auth_plugin env ''neutron'' of
        Inl e \<Rightarrow> (Inl e, w)
      | Inr auth_plugin \<Rightarrow>
          (case utils_get_keystone_session env ''neutron'' auth_plugin of
             Inl e \<Rightarrow> (Inl e, w)
           | Inr session \<Rightarrow>
               (case Connection_init session (conf_neutron_region_name env) w of
                  (conn, w') \<Rightarrow> (Inr (), exec (openstacksdk_stmts conn) w'))))"

definition setup_pod_resources_client :: "environment \<Rightarrow> world \<Rightarrow> (exc + unit) \<times> world" where
  "setup_pod_resources_client env w =
     (let root_dir = conf_sriov_kubelet_root_dir env in
      case alloc (PodResourcesClient root_dir) w of
        (r, w') \<Rightarrow> (Inr (), store_client POD_RESOURCES_CLIENT r w'))"

definition setup_clients :: "environment \<Rightarrow> world \<Rightarrow> (exc + unit) \<times> world" where
  "setup_clients env w =
     (case setup_neutron_client env w of
        (Inl e, w1) \<Rightarrow> (Inl e, w1)
      | (Inr u1, w1) \<Rightarrow>
          (case setup_kubernetes_client env w1 of
             (Inl e, w2) \<Rightarrow> (Inl e, w2)
           | (Inr u2, w2) \<Rightarrow> setup_openstacksdk env w2))"

section \<open>Python operations on JSON values\<close>

fun subscript :: "json \<Rightarrow> string \<Rightarrow> exc + json" where
  \<comment> \<open>\<^verbatim>\<open>x[key]\<close> with a \<^verbatim>\<open>str\<close> key\<close>
  "subscript (JDict d) key =
     (case map_of d key of None \<Rightarrow> Inl (KeyError key) | Some v \<Rightarrow> Inr v)"
| "subscript x key = Inl TypeError"

fun py_contains :: "string \<Rightarrow> json \<Rightarrow> exc + bool" where
  \<comment> \<open>\<^verbatim>\<open>key in x\<close> with a \<^verbatim>\<open>str\<close> key\<close>
  "py_contains key (JDict d) = Inr (map_of d key \<noteq> None)"
| "py_contains key (JList xs) = Inr (JStr key \<in> set xs)"
| "py_contains key (JStr s) = Inr (sublist key s)"
| "py_contains key x = Inl TypeError"

fun py_add :: "json \<Rightarrow> json \<Rightarrow> exc + json" where
  \<comment> \<open>\<^verbatim>\<open>a + b\<close>\<close>
  "py_add (JStr a) (JStr b) = Inr (JStr (a @ b))"
| "py_add (JList a) (JList b) = Inr (JList (a @ b))"
| "py_add (JInt a) (JInt b) = Inr (JInt (a + b))"
| "py_add (JInt a) (JBool b) = Inr (JInt (a + (if b then 1 else 0)))"
| "py_add (JBool a) (JInt b) = Inr (JInt ((if a then 1 else 0) + b))"
| "py_add (JBool a) (JBool b) = Inr (JInt ((if a then 1 else 0) + (if b then 1 else 0)))"
| "py_add a b = Inl TypeError"

fun py_iter :: "json \<Rightarrow> exc + json list" where
  \<comment> \<open>the items that \<^verbatim>\<open>for item in x\<close> visits\<close>
  "py_iter (JList xs) = Inr xs"
| "py_iter (JDict d) = Inr (map (\<lambda>kv. JStr (fst kv)) d)"
| "py_iter (JStr s) = Inr (map (\<lambda>c. JStr [c]) s)"
| "py_iter x = Inl TypeError"

section \<open>The HTTP side of the network client\<close>

text \<open>
  The network proxy is an HTTP adapter: \<^verbatim>\<open>self.post\<close> and \<^verbatim>\<open>self.put\<close> send one
  request each. The adapter records the requests it has sent; what the backend answers
  (or the exception of the transport) is a function of the request.
\<close>

datatype request = Request (req_method: string) (req_url: string) (req_json: json)

record response =
  resp_ok :: bool
  resp_status_code :: nat
  resp_text :: string
  resp_json :: "exc + json"

record adapter =
  transport :: "request \<Rightarrow> exc + response"
  sent :: "request list"

definition send :: "string \<Rightarrow> string \<Rightarrow> json \<Rightarrow> adapter \<Rightarrow> (exc + response) \<times> adapter" where
  "send m url body self =
     (transport self (Request m url body), self\<lparr>sent := sent self @ [Request m url body]\<rparr>)"

definition post :: "adapter \<Rightarrow> string \<Rightarrow> json \<Rightarrow> (exc + response) \<times> adapter" where
  \<comment> \<open>\<^verbatim>\<open>self.post(url, json=body)\<close>\<close>
  "post self url body = send ''POST'' url body self"

definition put :: "adapter \<Rightarrow> string \<Rightarrow> json \<Rightarrow> (exc + response) \<times> adapter" where
  \<comment> \<open>\<^verbatim>\<open>self.put(url, json=body)\<close>\<close>
  "put self url body = send ''PUT'' url body self"

section \<open>Bulk port creation\<close>

definition Port_base_path :: string where
  \<comment> \<open>\<^verbatim>\<open>os_port.Port.base_path\<close>\<close>
  "Port_base_path = ''/ports''"

text \<open>
  Modelled from the spec: \<^verbatim>\<open>os_port.Port\<close> is a class of the SDK, not under src/. Its
  constructor is \<^verbatim>\<open>__init__(self, _synchronized=False, connection=None, **attrs)\<close>, so in
  \<^verbatim>\<open>Port(**item)\<close> the keys \<^verbatim>\<open>_synchronized\<close> and \<^verbatim>\<open>connection\<close> of the item bind the two
  named parameters, every other key is an attribute of the port, and a key \<^verbatim>\<open>self\<close>
  clashes with the instance and raises \<^verbatim>\<open>TypeError\<close>, as does an item that is not a
  mapping. A port records what its constructor was given.
\<close>

datatype port =
  Port (port_synchronized: json) (port_connection: json) (port_attrs: "(string \<times> json) list")




text \<open>
  A generator expression \<^verbatim>\<open>(Port(**item) for item in items)\<close> that has not yet visited
  \<open>items\<close>. \<open>gen_next\<close> is \<^verbatim>\<open>next(g)\<close>: \<open>None\<close> is \<^verbatim>\<open>StopIteration\<close>; an
  exception raised while producing an item finishes the generator. \<open>list_gen\<close> is
  \<^verbatim>\<open>list(g)\<close>.
\<close>

datatype generator = Generator "json list"




definition create_ports :: "adapter \<Rightarrow> json \<Rightarrow> (exc + generator) \<times> adapter" where
  \<comment> \<open>\<^verbatim>\<open>_create_ports(self, payload)\<close>\<close>
  "create_ports self payload =
     (case post self Port_base_path payload of
        (Inl e, self') \<Rightarrow> (Inl e, self')
      | (Inr response, self') \<Rightarrow>
          if \<not> resp_ok response
          then (Inl (SDKException (JStr ''Error when bulk creating ports: %s'')
                       (JStr (resp_text response))), self')
          else
            (case resp_json response of
               Inl e \<Rightarrow> (Inl e, self')
             | Inr body \<Rightarrow>
                 (case subscript body ''ports'' of
                    Inl e \<Rightarrow> (Inl e, self')
                  | Inr ports \<Rightarrow>
                      (case py_iter ports of
                         Inl e \<Rightarrow> (Inl e, self')
                       | Inr items \<Rightarrow> (Inr (Generator items), self')))))"

definition exc_message :: "exc \<Rightarrow> json" where
  \<comment> \<open>\<^verbatim>\<open>e.message\<close> of an SDK exception\<close>
  "exc_message e =
     (case e of SDKException m x \<Rightarrow> m | HttpException c m s \<Rightarrow> m | _ \<Rightarrow> JNull)"

definition exc_extra_data :: "exc \<Rightarrow> json" where
  \<comment> \<open>\<^verbatim>\<open>e.extra_data\<close>\<close>
  "exc_extra_data e = (case e of SDKException m x \<Rightarrow> x | _ \<Rightarrow> JNull)"

section \<open>Trunk sub-port mutations\<close>

record trunk =
  trunk_id :: string
  trunk_attributes :: "string \<rightharpoonup> json"

datatype trunk_arg = TrunkId string | TrunkObj trunk

text \<open>
  Modelled from the spec: \<^verbatim>\<open>Proxy._get_resource\<close>, \<^verbatim>\<open>openstack.utils.urljoin\<close> and
  \<^verbatim>\<open>openstack.exceptions.raise_from_response\<close> belong to the SDK and are not under src/.
  \<open>get_resource\<close> resolves its argument locally: an identifier gives a new resource with
  that id, a resource is passed through; it sends nothing. \<open>urljoin\<close> strips the slashes
  at both ends of every segment and joins the segments with one slash.
  \<open>raise_from_response\<close> returns on every status below 400 and otherwise raises the HTTP
  exception of the status (\<^verbatim>\<open>NotFoundException\<close> for 404; releases of the SDK without a
  class for 403 raise the generic one there), constructed without a message.
\<close>

definition get_resource :: "trunk_arg \<Rightarrow> trunk" where
  "get_resource a =
     (case a of
        TrunkId i \<Rightarrow> \<lparr>trunk_id = i, trunk_attributes = [''id'' \<mapsto> JStr i]\<rparr>
      | TrunkObj t \<Rightarrow> t)"

definition strip_slashes :: "string \<Rightarrow> string" where
  "strip_slashes s =
     rev (dropWhile (\<lambda>c. c = CHR ''/'') (rev (dropWhile (\<lambda>c. c = CHR ''/'') s)))"

fun join_slash :: "string list \<Rightarrow> string" where
  "join_slash [] = []"
| "join_slash [x] = x"
| "join_slash (x # y # ys) = x @ ''/'' @ join_slash (y # ys)"

definition urljoin :: "string list \<Rightarrow> string" where
  "urljoin args = join_slash (map strip_slashes args)"

definition http_exception_class :: "nat \<Rightarrow> http_class" where
  "http_exception_class status =
     (if status = 409 then Conflict
      else if status = 404 then NotFound
      else if status = 400 then BadRequest
      else if status = 403 then Forbidden
      else if status = 412 then PreconditionFailed
      else Generic)"

definition raise_from_response :: "response \<Rightarrow> exc option" where
  "raise_from_response response =
     (if resp_status_code response < 400 then None
      else Some (HttpException_init (http_exception_class (resp_status_code response)) JNull
                   (Some (resp_status_code response))))"

definition add_trunk_subports ::
  "adapter \<Rightarrow> trunk_arg \<Rightarrow> json \<Rightarrow> (exc + trunk) \<times> adapter" where
  \<comment> \<open>\<^verbatim>\<open>_add_trunk_subports(self, trunk, subports)\<close>\<close>
  "add_trunk_subports self trunk_arg subports =
     (let trunk = get_resource trunk_arg;
          url = urljoin [''/trunks'', trunk_id trunk, ''add_subports'']
      in case put self url (JDict [(''sub_ports'', subports)]) of
           (Inl e, self') \<Rightarrow> (Inl e, self')
         | (Inr response, self') \<Rightarrow>
             (case raise_from_response response of
                Some e \<Rightarrow> (Inl e, self')
              | None \<Rightarrow>
                  (Inr (trunk\<lparr>trunk_attributes :=
                          (trunk_attributes trunk)(''sub_ports'' \<mapsto> subports)\<rparr>), self')))"

definition delete_trunk_subports ::
  "adapter \<Rightarrow> trunk_arg \<Rightarrow> json \<Rightarrow> (exc + trunk) \<times> adapter" where
  \<comment> \<open>\<^verbatim>\<open>_delete_trunk_subports(self, trunk, subports)\<close>\<close>
  "delete_trunk_subports self trunk_arg subports =
     (let trunk = get_resource trunk_arg;
          url = urljoin [''/trunks'', trunk_id trunk, ''remove_subports'']
      in case put self url (JDict [(''sub_ports'', subports)]) of
           (Inl e, self') \<Rightarrow> (Inl e, self')
         | (Inr response, self') \<Rightarrow>
             (case raise_from_response response of
                Some e \<Rightarrow> (Inl e, self')
              | None \<Rightarrow>
                  (Inr (trunk\<lparr>trunk_attributes :=
                          (trunk_attributes trunk)(''sub_ports'' \<mapsto> subports)\<rparr>), self')))"

section \<open>Error translation\<close>

definition not_found_types :: "json list" where
  "not_found_types =
     [JStr ''RouterNotFound'', JStr ''RouterInterfaceNotFoundForSubnet'', JStr ''SubnetNotFound'']"

definition raise_neutron_error :: "json \<Rightarrow> exc" where
  \<comment> \<open>the body of \<^verbatim>\<open>if 'NeutronError' in result\<close>, which always raises\<close>
  "raise_neutron_error result =
     (case subscript result ''NeutronError'' of
        Inl e \<Rightarrow> e
      | Inr error \<Rightarrow>
          (case subscript error ''type'' of
             Inl e \<Rightarrow> e
           | Inr ty \<Rightarrow>
               if ty \<in> set not_found_types
               then (case subscript error ''message'' of
                       Inl e \<Rightarrow> e
                     | Inr m \<Rightarrow> NotFoundException m)
               else
                 (case py_add ty (JStr '': '') of
                    Inl e \<Rightarrow> e
                  | Inr lhs \<Rightarrow>
                      (case subscript error ''message'' of
                         Inl e \<Rightarrow> e
                       | Inr m \<Rightarrow>
                           (case py_add lhs m of
                              Inl e \<Rightarrow> e
                            | Inr msg \<Rightarrow> SDKException msg JNull)))))"

definition handle_neutron_errors :: "('a \<Rightarrow> exc + json) \<Rightarrow> 'a \<Rightarrow> exc + json" where
  \<comment> \<open>\<^verbatim>\<open>handle_neutron_errors(method, *args, **kwargs)\<close>: \<open>method args\<close> is the outcome of
      the wrapped call\<close>
  "handle_neutron_errors method args =
     (case method args of
        Inl e \<Rightarrow> Inl e
      | Inr result \<Rightarrow>
          (case py_contains ''NeutronError'' result of
             Inl e \<Rightarrow> Inl e
           | Inr present \<Rightarrow> if present then Inl (raise_neutron_error result) else Inr result))"

section \<open>Observers and example inputs\<close>

definition example_env :: "string option \<Rightarrow> (string \<rightharpoonup> string) \<Rightarrow> environment" where
  "example_env root vars =
     \<lparr>conf_kubernetes_api_root = root, conf_neutron_region_name = None,
      conf_sriov_kubelet_root_dir = ''/var/lib/kubelet'', environ = vars,
      utils_get_neutron_client = Inr (),
      utils_get_auth_plugin = (\<lambda>group. Inr 0),
      utils_get_keystone_session = (\<lambda>group plugin. Inr 0)\<rparr>"

definition registered_api_root :: "world \<Rightarrow> string option" where
  "registered_api_root w =
     (case clients w KUBERNETES_CLIENT of
        None \<Rightarrow> None
      | Some r \<Rightarrow> (case heap w r of Some (K8sClient root) \<Rightarrow> Some root | _ \<Rightarrow> None))"

definition patched_attrs :: "ref \<Rightarrow> string \<rightharpoonup> callable" where
  "patched_attrs n =
     [''create_ports'' \<mapsto> Partial F_create_ports n,
      ''add_trunk_subports'' \<mapsto> Partial F_add_trunk_subports n,
      ''delete_trunk_subports'' \<mapsto> Partial F_delete_trunk_subports n]"

definition pod_vars :: "string \<Rightarrow> string \<Rightarrow> (string \<rightharpoonup> string)" where
  "pod_vars host port =
     [''KUBERNETES_SERVICE_HOST'' \<mapsto> host, ''KUBERNETES_SERVICE_PORT_HTTPS'' \<mapsto> port]"

text \<open>
  A network sub-client carries the patch when the three extra operations are instance
  attributes of it, each bound to the sub-client itself.
\<close>

definition carries_patch :: "world \<Rightarrow> ref \<Rightarrow> bool" where
  "carries_patch w n =
     (case heap w n of
        Some (Proxy svc attrs) \<Rightarrow>
          attrs ''create_ports'' = Some (Partial F_create_ports n) \<and>
          attrs ''add_trunk_subports'' = Some (Partial F_add_trunk_subports n) \<and>
          attrs ''delete_trunk_subports'' = Some (Partial F_delete_trunk_subports n)
      | _ \<Rightarrow> False)"

text \<open>
  The states a caller of the module can observe: the state at import, the state after any
  call of a factory or of an accessor (\<^verbatim>\<open>setup_clients\<close> is a sequence of three such
  calls), and, for \<^verbatim>\<open>setup_openstacksdk\<close>, also every point between two of its statements
  once the connection is built.
\<close>

inductive reachable :: "world \<Rightarrow> bool" where
  start: "reachable initial_world"
| after_setup_neutron_client:
    "reachable w \<Longrightarrow> reachable (snd (setup_neutron_client (env :: environment) w))"
| after_setup_kubernetes_client:
    "reachable w \<Longrightarrow> reachable (snd (setup_kubernetes_client (env :: environment) w))"
| after_setup_pod_resources_client:
    "reachable w \<Longrightarrow>
     reachable (snd (setup_pod_resources_client (env :: environment) w))"
| after_get_neutron_client:
    "reachable w \<Longrightarrow> reachable (snd (get_neutron_client w))"
| inside_setup_openstacksdk:
    "reachable w \<Longrightarrow>
     utils_get_auth_plugin (env :: environment) ''neutron'' = Inr auth_plugin \<Longrightarrow>
     utils_get_keystone_session env ''neutron'' auth_plugin = Inr session \<Longrightarrow>
     Connection_init session (conf_neutron_region_name env) w = (conn, w') \<Longrightarrow>
     k \<le> length (openstacksdk_stmts conn) \<Longrightarrow>
     reachable (exec (take k (openstacksdk_stmts conn)) w')"

text \<open>The invariant behind the reachable states: references at or beyond \<open>next_ref\<close>
  are unused, and a registered connection has a patched network sub-client.\<close>

definition registry_inv :: "world \<Rightarrow> bool" where
  "registry_inv w =
     ((\<forall>r. next_ref w \<le> r \<longrightarrow> heap w r = None) \<and>
      (case clients w OPENSTACKSDK of
         None \<Rightarrow> True
       | Some c \<Rightarrow>
           (case heap w c of
              Some (Connection s rg n l cc) \<Rightarrow> carries_patch w n
            | _ \<Rightarrow> False)))"

text \<open>The invariant behind the deprecated accessor: a registered neutron client is a
  neutron client object.\<close>

definition neutron_inv :: "world \<Rightarrow> bool" where
  "neutron_inv w =
     ((\<forall>r. next_ref w \<le> r \<longrightarrow> heap w r = None) \<and>
      (case clients w NEUTRON_CLIENT of
         None \<Rightarrow> True
       | Some r \<Rightarrow> heap w r = Some NeutronClient))"

definition example_response :: "bool \<Rightarrow> nat \<Rightarrow> string \<Rightarrow> exc + json \<Rightarrow> response" where
  "example_response ok status body js =
     \<lparr>resp_ok = ok, resp_status_code = status, resp_text = body, resp_json = js\<rparr>"

definition example_adapter :: "response \<Rightarrow> adapter" where
  "example_adapter r = \<lparr>transport = (\<lambda>rq. Inr r), sent = []\<rparr>"

definition trunk_subports_request ::
  "string \<Rightarrow> adapter \<Rightarrow> trunk_arg \<Rightarrow> json \<Rightarrow> (exc + trunk) \<times> adapter" where
  \<comment> \<open>the body that the two mutations share; \<open>action\<close> is the last URL segment\<close>
  "trunk_subports_request action self trunk_arg subports =
     (let trunk = get_resource trunk_arg;
          url = urljoin [''/trunks'', trunk_id trunk, action]
      in case put self url (JDict [(''sub_ports'', subports)]) of
           (Inl e, self') \<Rightarrow> (Inl e, self')
         | (Inr response, self') \<Rightarrow>
             (case raise_from_response response of
                Some e \<Rightarrow> (Inl e, self')
              | None \<Rightarrow>
                  (Inr (trunk\<lparr>trunk_attributes :=
                          (trunk_attributes trunk)(''sub_ports'' \<mapsto> subports)\<rparr>), self')))"

section \<open>What each factory does to the state\<close>

lemmas key_defs = NEUTRON_CLIENT_def KUBERNETES_CLIENT_def OPENSTACKSDK_def
  POD_RESOURCES_CLIENT_def

lemma setup_kubernetes_client_success:
  assumes "api_root env = Inr root"
  shows "setup_kubernetes_client env w =
           (Inr (), w\<lparr>clients := (clients w)(KUBERNETES_CLIENT \<mapsto> next_ref w),
                      heap := (heap w)(next_ref w \<mapsto> K8sClient root),
                      next_ref := Suc (next_ref w)\<rparr>)"
  using assms by (simp add: setup_kubernetes_client_def alloc_def store_client_def)

lemma setup_kubernetes_client_failure:
  assumes "api_root env = Inl e"
  shows "setup_kubernetes_client env w = (Inl e, w)"
  using assms by (simp add: setup_kubernetes_client_def)

lemma setup_pod_resources_client_eq:
  "setup_pod_resources_client env w =
     (Inr (), w\<lparr>clients := (clients w)(POD_RESOURCES_CLIENT \<mapsto> next_ref w),
                heap := (heap w)(next_ref w \<mapsto> PodResourcesClient (conf_sriov_kubelet_root_dir env)),
                next_ref := Suc (next_ref w)\<rparr>)"
  by (simp add: setup_pod_resources_client_def alloc_def store_client_def)

lemma setup_neutron_client_success:
  assumes "utils_get_neutron_client env = Inr u"
  shows "setup_neutron_client env w =
     (Inr (), w\<lparr>clients := (clients w)(NEUTRON_CLIENT \<mapsto> next_ref w),
                heap := (heap w)(next_ref w \<mapsto> NeutronClient),
                next_ref := Suc (next_ref w)\<rparr>)"
  using assms by (simp add: setup_neutron_client_def alloc_def store_client_def)

lemma setup_neutron_client_failure:
  assumes "utils_get_neutron_client env = Inl e"
  shows "setup_neutron_client env w = (Inl e, w)"
  using assms by (simp add: setup_neutron_client_def)

lemma Connection_init_eq:
  "Connection_init session region w =
     (next_ref w + 3,
      w\<lparr>heap := (heap w)(next_ref w \<mapsto> Proxy ''network'' Map.empty,
                          Suc (next_ref w) \<mapsto> Proxy ''load_balancer'' Map.empty,
                          Suc (Suc (next_ref w)) \<mapsto> Proxy ''compute'' Map.empty,
                          next_ref w + 3 \<mapsto>
                            Connection session region (next_ref w) (Suc (next_ref w))
                              (Suc (Suc (next_ref w)))),
        next_ref := next_ref w + 4\<rparr>)"
  by (simp add: Connection_init_def alloc_def eval_nat_numeral)

lemma setup_openstacksdk_success:
  assumes "utils_get_auth_plugin env ''neutron'' = Inr p"
    and "utils_get_keystone_session env ''neutron'' p = Inr s"
  shows "setup_openstacksdk env w =
     (Inr (),
      w\<lparr>heap := (heap w)(next_ref w \<mapsto> Proxy ''network'' (patched_attrs (next_ref w)),
                          Suc (next_ref w) \<mapsto> Proxy ''load_balancer'' Map.empty,
                          Suc (Suc (next_ref w)) \<mapsto> Proxy ''compute'' Map.empty,
                          next_ref w + 3 \<mapsto>
                            Connection s (conf_neutron_region_name env) (next_ref w)
                              (Suc (next_ref w)) (Suc (Suc (next_ref w)))),
        next_ref := next_ref w + 4,
        clients := (clients w)(OPENSTACKSDK \<mapsto> next_ref w + 3)\<rparr>)"
  using assms
  apply (simp add: setup_openstacksdk_def Connection_init_eq exec_def openstacksdk_stmts_def
      set_network_attr_def store_client_def patched_attrs_def)
  apply (rule world.equality; simp)
  apply (rule ext; simp)
  done

lemma ip_address_loopback6: "ip_address ''::1'' = Inr (IPv6Address 1 None)"
  by code_simp

lemma ip_address_hostname: "ip_address ''my-host'' = Inl ValueError"
  by code_simp

lemma api_root_pod_loopback6:
  "api_root (example_env None (pod_vars ''::1'' ''443'')) = Inr ''https://[::1]:443''"
  by (simp add: api_root_def example_env_def pod_vars_def subscript_environ_def
      bracket_host_def ip_address_loopback6)

lemma api_root_pod_hostname:
  "api_root (example_env None (pod_vars ''my-host'' ''8443'')) = Inr ''https://my-host:8443''"
  by (simp add: api_root_def example_env_def pod_vars_def subscript_environ_def
      bracket_host_def ip_address_hostname)

lemma setup_clients_example:
  "setup_clients (example_env None (pod_vars ''::1'' ''443'')) initial_world =
     (Inr (),
      \<lparr>clients = [NEUTRON_CLIENT \<mapsto> 0, KUBERNETES_CLIENT \<mapsto> 1, OPENSTACKSDK \<mapsto> 5],
       heap = [0 \<mapsto> NeutronClient, 1 \<mapsto> K8sClient ''https://[::1]:443'',
               2 \<mapsto> Proxy ''network'' (patched_attrs 2),
               3 \<mapsto> Proxy ''load_balancer'' Map.empty,
               4 \<mapsto> Proxy ''compute'' Map.empty,
               5 \<mapsto> Connection 0 None 2 3 4],
       next_ref = 6, warnings = []\<rparr>)"
proof -
  let ?env = "example_env None (pod_vars ''::1'' ''443'')"
  have n: "utils_get_neutron_client ?env = Inr ()"
    and p: "utils_get_auth_plugin ?env ''neutron'' = Inr 0"
    and s: "utils_get_keystone_session ?env ''neutron'' 0 = Inr 0"
    and r: "conf_neutron_region_name ?env = None"
    by (simp_all add: example_env_def)
  show ?thesis
    by (simp add: setup_clients_def setup_neutron_client_success [OF n]
        setup_kubernetes_client_success [OF api_root_pod_loopback6]
        setup_openstacksdk_success [OF p s] r initial_world_def eval_nat_numeral)
qed

section \<open>Accessors before and after setup\<close>

text \<open>
  Claim C1, as the code has it. While a client kind has no entry in \<^verbatim>\<open>_clients\<close> its
  accessor raises Python's \<^verbatim>\<open>KeyError\<close> for the registry key (the module has no error of
  its own for this). After a setup function has returned, the accessor of its kind returns
  the reference of the object that the setup constructed, and a second call returns the
  same reference. \<open>get_network_client\<close> returns the network sub-client of the registered
  connection.
\<close>

theorem accessor_before_and_after_setup:
  "(clients w KUBERNETES_CLIENT = None \<longrightarrow>
      fst (get_kubernetes_client w) = Inl (KeyError ''kubernetes-client''))
   \<and> (clients w POD_RESOURCES_CLIENT = None \<longrightarrow>
      fst (get_pod_resources_client w) = Inl (KeyError ''pod-resources-client''))
   \<and> (clients w OPENSTACKSDK = None \<longrightarrow>
      fst (get_openstacksdk w) = Inl (KeyError ''openstacksdk'') \<and>
      fst (get_network_client w) = Inl (KeyError ''openstacksdk''))
   \<and> (clients w NEUTRON_CLIENT = None \<longrightarrow>
      fst (get_neutron_client w) = Inl (KeyError ''neutron-client''))
   \<and> (setup_kubernetes_client env w = (Inr (), w1) \<longrightarrow>
      (\<exists>root. api_root env = Inr root \<and> heap w1 (next_ref w) = Some (K8sClient root)) \<and>
      fst (get_kubernetes_client w1) = Inr (next_ref w) \<and>
      fst (get_kubernetes_client (snd (get_kubernetes_client w1))) = Inr (next_ref w))
   \<and> (setup_pod_resources_client env w = (Inr (), w2) \<longrightarrow>
      heap w2 (next_ref w) = Some (PodResourcesClient (conf_sriov_kubelet_root_dir env)) \<and>
      fst (get_pod_resources_client w2) = Inr (next_ref w) \<and>
      fst (get_pod_resources_client (snd (get_pod_resources_client w2))) = Inr (next_ref w))
   \<and> (setup_openstacksdk env w = (Inr (), w3) \<longrightarrow>
      (\<exists>s. heap w3 (next_ref w + 3) =
         Some (Connection s (conf_neutron_region_name env) (next_ref w) (Suc (next_ref w))
                 (Suc (Suc (next_ref w))))) \<and>
      fst (get_openstacksdk w3) = Inr (next_ref w + 3) \<and>
      fst (get_openstacksdk (snd (get_openstacksdk w3))) = Inr (next_ref w + 3) \<and>
      fst (get_network_client w3) = Inr (next_ref w) \<and>
      fst (get_network_client (snd (get_network_client w3))) = Inr (next_ref w))
   \<and> (setup_neutron_client env w = (Inr (), w4) \<longrightarrow>
      heap w4 (next_ref w) = Some NeutronClient \<and>
      fst (get_neutron_client w4) = Inr (next_ref w) \<and>
      fst (get_neutron_client (snd (get_neutron_client w4))) = Inr (next_ref w))"
proof (intro conjI impI)
  assume "clients w KUBERNETES_CLIENT = None"
  then show "fst (get_kubernetes_client w) = Inl (KeyError ''kubernetes-client'')"
    by (simp add: get_kubernetes_client_def subscript_clients_def KUBERNETES_CLIENT_def)
next
  assume "clients w POD_RESOURCES_CLIENT = None"
  then show "fst (get_pod_resources_client w) = Inl (KeyError ''pod-resources-client'')"
    by (simp add: get_pod_resources_client_def subscript_clients_def POD_RESOURCES_CLIENT_def)
next
  assume a: "clients w OPENSTACKSDK = None"
  then show "fst (get_openstacksdk w) = Inl (KeyError ''openstacksdk'')"
    by (simp add: get_openstacksdk_def subscript_clients_def OPENSTACKSDK_def)
  from a show "fst (get_network_client w) = Inl (KeyError ''openstacksdk'')"
    by (simp add: get_network_client_def subscript_clients_def OPENSTACKSDK_def)
next
  assume "clients w NEUTRON_CLIENT = None"
  then show "fst (get_neutron_client w) = Inl (KeyError ''neutron-client'')"
    by (simp add: get_neutron_client_def removals_remove_def subscript_clients_def
        NEUTRON_CLIENT_def)
next
  assume a: "setup_kubernetes_client env w = (Inr (), w1)"
  then obtain root where r: "api_root env = Inr root"
    by (cases "api_root env") (simp_all add: setup_kubernetes_client_failure)
  from a have w1: "w1 = w\<lparr>clients := (clients w)(KUBERNETES_CLIENT \<mapsto> next_ref w),
                      heap := (heap w)(next_ref w \<mapsto> K8sClient root),
                      next_ref := Suc (next_ref w)\<rparr>"
    by (simp add: setup_kubernetes_client_success [OF r])
  show "\<exists>root. api_root env = Inr root \<and> heap w1 (next_ref w) = Some (K8sClient root)"
    using r w1 by simp
  show "fst (get_kubernetes_client w1) = Inr (next_ref w)"
    using w1 by (simp add: get_kubernetes_client_def subscript_clients_def)
  show "fst (get_kubernetes_client (snd (get_kubernetes_client w1))) = Inr (next_ref w)"
    using w1 by (simp add: get_kubernetes_client_def subscript_clients_def)
next
  assume "setup_pod_resources_client env w = (Inr (), w2)"
  then have w2: "w2 = w\<lparr>clients := (clients w)(POD_RESOURCES_CLIENT \<mapsto> next_ref w),
                heap := (heap w)(next_ref w \<mapsto> PodResourcesClient (conf_sriov_kubelet_root_dir env)),
                next_ref := Suc (next_ref w)\<rparr>"
    by (simp add: setup_pod_resources_client_eq)
  show "heap w2 (next_ref w) = Some (PodResourcesClient (conf_sriov_kubelet_root_dir env))"
    using w2 by simp
  show "fst (get_pod_resources_client w2) = Inr (next_ref w)"
    using w2 by (simp add: get_pod_resources_client_def subscript_clients_def)
  show "fst (get_pod_resources_client (snd (get_pod_resources_client w2))) = Inr (next_ref w)"
    using w2 by (simp add: get_pod_resources_client_def subscript_clients_def)
next
  assume a: "setup_openstacksdk env w = (Inr (), w3)"
  then obtain p where p: "utils_get_auth_plugin env ''neutron'' = Inr p"
    by (cases "utils_get_auth_plugin env ''neutron''") (simp_all add: setup_openstacksdk_def)
  from a p obtain s where s: "utils_get_keystone_session env ''neutron'' p = Inr s"
    by (cases "utils_get_keystone_session env ''neutron'' p")
      (simp_all add: setup_openstacksdk_def)
  from a have w3: "w3 = w\<lparr>heap := (heap w)(next_ref w \<mapsto> Proxy ''network'' (patched_attrs (next_ref w)),
                          Suc (next_ref w) \<mapsto> Proxy ''load_balancer'' Map.empty,
                          Suc (Suc (next_ref w)) \<mapsto> Proxy ''compute'' Map.empty,
                          next_ref w + 3 \<mapsto>
                            Connection s (conf_neutron_region_name env) (next_ref w)
                              (Suc (next_ref w)) (Suc (Suc (next_ref w)))),
        next_ref := next_ref w + 4,
        clients := (clients w)(OPENSTACKSDK \<mapsto> next_ref w + 3)\<rparr>"
    by (simp add: setup_openstacksdk_success [OF p s])
  show "\<exists>s. heap w3 (next_ref w + 3) =
         Some (Connection s (conf_neutron_region_name env) (next_ref w) (Suc (next_ref w))
                 (Suc (Suc (next_ref w))))"
    using w3 by simp
  show "fst (get_openstacksdk w3) = Inr (next_ref w + 3)"
    using w3 by (simp add: get_openstacksdk_def subscript_clients_def)
  show "fst (get_openstacksdk (snd (get_openstacksdk w3))) = Inr (next_ref w + 3)"
    using w3 by (simp add: get_openstacksdk_def subscript_clients_def)
  show "fst (get_network_client w3) = Inr (next_ref w)"
    using w3 by (simp add: get_network_client_def subscript_clients_def attr_of_connection_def)
  show "fst (get_network_client (snd (get_network_client w3))) = Inr (next_ref w)"
    using w3 by (simp add: get_network_client_def subscript_clients_def attr_of_connection_def)
next
  assume a: "setup_neutron_client env w = (Inr (), w4)"
  then obtain u where u: "utils_get_neutron_client env = Inr u"
    by (cases "utils_get_neutron_client env") (simp_all add: setup_neutron_client_failure)
  from a have w4: "w4 = w\<lparr>clients := (clients w)(NEUTRON_CLIENT \<mapsto> next_ref w),
                heap := (heap w)(next_ref w \<mapsto> NeutronClient),
                next_ref := Suc (next_ref w)\<rparr>"
    by (simp add: setup_neutron_client_success [OF u])
  show "heap w4 (next_ref w) = Some NeutronClient"
    using w4 by simp
  show "fst (get_neutron_client w4) = Inr (next_ref w)"
    using w4 by (simp add: get_neutron_client_def removals_remove_def subscript_clients_def)
  show "fst (get_neutron_client (snd (get_neutron_client w4))) = Inr (next_ref w)"
    using w4 by (simp add: get_neutron_client_def removals_remove_def subscript_clients_def)
qed

text \<open>
  At the empty registry the accessors raise \<^verbatim>\<open>KeyError\<close>, which is not the
  \<open>NotInitialized\<close> error of the claim as it was stated.
\<close>

theorem accessor_not_initialized_counterexample:
  "fst (get_kubernetes_client initial_world) = Inl (KeyError ''kubernetes-client'')
   \<and> fst (get_kubernetes_client initial_world) \<noteq> Inl NotInitialized
   \<and> fst (get_pod_resources_client initial_world) \<noteq> Inl NotInitialized
   \<and> fst (get_network_client initial_world) \<noteq> Inl NotInitialized"
  by (simp add: get_kubernetes_client_def get_pod_resources_client_def get_network_client_def
      subscript_clients_def initial_world_def key_defs)

theorem accessor_before_and_after_setup_witness:
  "fst (get_kubernetes_client initial_world) = Inl (KeyError ''kubernetes-client'')
   \<and> fst (get_pod_resources_client initial_world) = Inl (KeyError ''pod-resources-client'')
   \<and> fst (get_openstacksdk initial_world) = Inl (KeyError ''openstacksdk'')
   \<and> fst (get_network_client initial_world) = Inl (KeyError ''openstacksdk'')
   \<and> fst (get_neutron_client initial_world) = Inl (KeyError ''neutron-client'')
   \<and> fst (get_kubernetes_client
        (snd (setup_kubernetes_client (example_env None (pod_vars ''::1'' ''443''))
           initial_world))) = Inr 0
   \<and> fst (get_pod_resources_client
        (snd (setup_pod_resources_client (example_env None (pod_vars ''::1'' ''443''))
           initial_world))) = Inr 0
   \<and> fst (get_openstacksdk
        (snd (setup_openstacksdk (example_env None (pod_vars ''::1'' ''443''))
           initial_world))) = Inr 3
   \<and> fst (get_network_client
        (snd (setup_openstacksdk (example_env None (pod_vars ''::1'' ''443''))
           initial_world))) = Inr 0
   \<and> fst (get_neutron_client
        (snd (setup_neutron_client (example_env None (pod_vars ''::1'' ''443''))
           initial_world))) = Inr 0"
proof -
  let ?env = "example_env None (pod_vars ''::1'' ''443'')"
  have absent: "clients initial_world KUBERNETES_CLIENT = None"
    "clients initial_world POD_RESOURCES_CLIENT = None"
    "clients initial_world OPENSTACKSDK = None"
    "clients initial_world NEUTRON_CLIENT = None"
    by (simp_all add: initial_world_def)
  have k: "setup_kubernetes_client ?env initial_world =
      (Inr (), snd (setup_kubernetes_client ?env initial_world))"
    by (simp add: setup_kubernetes_client_success [OF api_root_pod_loopback6])
  have p: "setup_pod_resources_client ?env initial_world =
      (Inr (), snd (setup_pod_resources_client ?env initial_world))"
    by (simp add: setup_pod_resources_client_eq)
  have s: "setup_openstacksdk ?env initial_world =
      (Inr (), snd (setup_openstacksdk ?env initial_world))"
    by (simp add: setup_openstacksdk_success [where p=0 and s=0] example_env_def)
  have n: "setup_neutron_client ?env initial_world =
      (Inr (), snd (setup_neutron_client ?env initial_world))"
    by (simp add: setup_neutron_client_success [where u="()"] example_env_def)
  have z: "next_ref initial_world = 0"
    by (simp add: initial_world_def)
  show ?thesis
    using accessor_before_and_after_setup [of initial_world ?env
        "snd (setup_kubernetes_client ?env initial_world)"
        "snd (setup_pod_resources_client ?env initial_world)"
        "snd (setup_openstacksdk ?env initial_world)"
        "snd (setup_neutron_client ?env initial_world)"]
      absent k p s n z
    by simp
qed

section \<open>The API root of the Kubernetes client\<close>

lemma api_root_configured:
  assumes "conf_kubernetes_api_root env = Some root" and "root \<noteq> []"
  shows "api_root env = Inr root"
  using assms by (cases root) (simp_all add: api_root_def)

lemma api_root_from_environ:
  assumes "conf_kubernetes_api_root env = None \<or> conf_kubernetes_api_root env = Some []"
    and "environ env ''KUBERNETES_SERVICE_HOST'' = Some host"
    and "environ env ''KUBERNETES_SERVICE_PORT_HTTPS'' = Some port"
  shows "api_root env =
           Inr (''https://'' @
                (if \<exists>addr. ip_address host = Inr addr \<and> version addr = 6
                 then ''['' @ host @ '']'' else host) @ '':'' @ port)"
proof -
  have ip: "ip_address host = Inl ValueError \<or> (\<exists>addr. ip_address host = Inr addr)"
    by (auto simp: ip_address_def split: option.splits)
  then have "bracket_host host =
      Inr (if \<exists>addr. ip_address host = Inr addr \<and> version addr = 6
           then ''['' @ host @ '']'' else host)"
    by (auto simp: bracket_host_def)
  with assms show ?thesis
    by (auto simp: api_root_def subscript_environ_def)
qed

lemma api_root_missing_environ:
  assumes "conf_kubernetes_api_root env = None \<or> conf_kubernetes_api_root env = Some []"
    and "environ env ''KUBERNETES_SERVICE_HOST'' = None \<or>
         environ env ''KUBERNETES_SERVICE_PORT_HTTPS'' = None"
  shows "api_root env =
           Inl (KeyError (if environ env ''KUBERNETES_SERVICE_HOST'' = None
                          then ''KUBERNETES_SERVICE_HOST''
                          else ''KUBERNETES_SERVICE_PORT_HTTPS''))"
  using assms by (auto simp: api_root_def subscript_environ_def)

lemma registered_api_root_after_setup:
  assumes "api_root env = Inr root"
  shows "registered_api_root (snd (setup_kubernetes_client env w)) = Some root"
  by (simp add: setup_kubernetes_client_success [OF assms] registered_api_root_def)

lemma split_on_nonempty: "split_on c s \<noteq> []"
  by (induction s) (auto split: list.splits)

lemma split_on_absent: "c \<notin> set s \<Longrightarrow> split_on c s = [s]"
  by (induction s) auto

lemma split_on_covers:
  "x \<in> set s \<Longrightarrow> x = c \<or> (\<exists>p \<in> set (split_on c s). x \<in> set p)"
proof (induction s)
  case Nil
  then show ?case by simp
next
  case (Cons a s)
  then show ?case
    using split_on_nonempty [of c s]
    by (cases "split_on c s") auto
qed

lemma parse_octet_digits: "parse_octet p \<noteq> None \<Longrightarrow> list_all is_digit p"
  by (auto simp: parse_octet_def split: if_splits)

lemma ipv4_chars:
  assumes "IPv4Address_init s \<noteq> None" and "x \<in> set s"
  shows "x = CHR ''.'' \<or> is_digit x"
proof -
  from assms(1) have oct: "list_all (\<lambda>octet. parse_octet octet \<noteq> None) (split_on CHR ''.'' s)"
    by (auto simp: IPv4Address_init_def ipv4_int_from_string_def Let_def split: if_splits)
  from split_on_covers [OF assms(2), of "CHR ''.''"] show ?thesis
  proof
    assume "x = CHR ''.''"
    then show ?thesis by simp
  next
    assume "\<exists>p \<in> set (split_on CHR ''.'' s). x \<in> set p"
    then obtain p where p: "p \<in> set (split_on CHR ''.'' s)" and x: "x \<in> set p"
      by blast
    from oct p have "parse_octet p \<noteq> None"
      by (simp add: list_all_iff)
    then have "list_all is_digit p"
      by (rule parse_octet_digits)
    with x show ?thesis
      by (simp add: list_all_iff)
  qed
qed

lemma ipv4_not_ipv6:
  assumes "IPv4Address_init s \<noteq> None"
  shows "IPv6Address_init s = None"
proof -
  have colon: "CHR '':'' \<notin> set s"
    using ipv4_chars [OF assms, of "CHR '':''"] by (auto simp: is_digit_def)
  have percent: "CHR ''%'' \<notin> set s"
    using ipv4_chars [OF assms, of "CHR ''%''"] by (auto simp: is_digit_def)
  from percent have tw: "takeWhile (\<lambda>c. c \<noteq> CHR ''%'') s = s"
    and dw: "dropWhile (\<lambda>c. c \<noteq> CHR ''%'') s = []"
    by (auto simp: takeWhile_eq_all_conv)
  have "ipv6_int_from_string s = None"
    by (simp add: ipv6_int_from_string_def split_on_absent [OF colon])
  then show ?thesis
    by (simp add: IPv6Address_init_def split_scope_id_def tw dw)
qed

lemma ip_address_version_6_iff:
  "(\<exists>addr. ip_address host = Inr addr \<and> version addr = 6) = (IPv6Address_init host \<noteq> None)"
proof (cases "IPv4Address_init host")
  case None
  then show ?thesis
    by (auto simp: ip_address_def split: option.splits)
next
  case (Some ip)
  then have "IPv6Address_init host = None"
    by (intro ipv4_not_ipv6) simp
  with Some show ?thesis
    by (simp add: ip_address_def)
qed

lemma IPv6Address_init_loopback: "IPv6Address_init ''::1'' \<noteq> None"
  using ip_address_version_6_iff [of "''::1''"] by (simp add: ip_address_loopback6)

lemma IPv6Address_init_hostname: "IPv6Address_init ''my-host'' = None"
  by code_simp

text \<open>
  Claim C2. \<^verbatim>\<open>setup_kubernetes_client\<close> registers a client whose API root is the
  configured \<^verbatim>\<open>kubernetes.api_root\<close>, verbatim and whatever the environment holds, when
  that option is set (a non-empty string); otherwise it is
  \<^verbatim>\<open>"https://" + host + ":" + port\<close> from \<^verbatim>\<open>KUBERNETES_SERVICE_HOST\<close> and
  \<^verbatim>\<open>KUBERNETES_SERVICE_PORT_HTTPS\<close>, the host in square brackets exactly when it parses
  as an IPv6 address (\<^verbatim>\<open>ipaddress.IPv6Address\<close> accepts it, which is when
  \<^verbatim>\<open>ipaddress.ip_address\<close> returns an address of version 6).
\<close>

theorem setup_kubernetes_client_api_root:
  "(conf_kubernetes_api_root env = Some root \<and> root \<noteq> [] \<longrightarrow>
      fst (setup_kubernetes_client env w) = Inr () \<and>
      registered_api_root (snd (setup_kubernetes_client env w)) = Some root)
   \<and> ((conf_kubernetes_api_root env = None \<or> conf_kubernetes_api_root env = Some []) \<and>
       environ env ''KUBERNETES_SERVICE_HOST'' = Some host \<and>
       environ env ''KUBERNETES_SERVICE_PORT_HTTPS'' = Some port \<longrightarrow>
      fst (setup_kubernetes_client env w) = Inr () \<and>
      registered_api_root (snd (setup_kubernetes_client env w)) =
        Some (''https://'' @
              (if IPv6Address_init host \<noteq> None then ''['' @ host @ '']'' else host) @ '':'' @ port))"
proof (intro conjI impI)
  assume a: "conf_kubernetes_api_root env = Some root \<and> root \<noteq> []"
  then have r: "api_root env = Inr root"
    by (simp add: api_root_configured)
  show "fst (setup_kubernetes_client env w) = Inr ()"
    by (simp add: setup_kubernetes_client_success [OF r])
  show "registered_api_root (snd (setup_kubernetes_client env w)) = Some root"
    by (rule registered_api_root_after_setup [OF r])
next
  assume a: "(conf_kubernetes_api_root env = None \<or> conf_kubernetes_api_root env = Some []) \<and>
       environ env ''KUBERNETES_SERVICE_HOST'' = Some host \<and>
       environ env ''KUBERNETES_SERVICE_PORT_HTTPS'' = Some port"
  let ?root = "''https://'' @
              (if IPv6Address_init host \<noteq> None then ''['' @ host @ '']'' else host) @ '':'' @ port"
  from a have "api_root env =
           Inr (''https://'' @
                (if \<exists>addr. ip_address host = Inr addr \<and> version addr = 6
                 then ''['' @ host @ '']'' else host) @ '':'' @ port)"
    by (intro api_root_from_environ) simp_all
  then have r: "api_root env = Inr ?root"
    by (simp only: ip_address_version_6_iff)
  show "fst (setup_kubernetes_client env w) = Inr ()"
    by (simp add: setup_kubernetes_client_success [OF r])
  show "registered_api_root (snd (setup_kubernetes_client env w)) = Some ?root"
    by (rule registered_api_root_after_setup [OF r])
qed

text \<open>
  The three examples of the specification: a configured root with the environment
  variables also present, the host \<^verbatim>\<open>::1\<close> with port 443, and the host \<^verbatim>\<open>my-host\<close>
  with port 8443.
\<close>

theorem setup_kubernetes_client_api_root_witness:
  "registered_api_root
     (snd (setup_kubernetes_client
        (example_env (Some ''https://example:6443'') (pod_vars ''::1'' ''443''))
        initial_world)) = Some ''https://example:6443''
   \<and> registered_api_root
     (snd (setup_kubernetes_client (example_env None (pod_vars ''::1'' ''443''))
        initial_world)) = Some ''https://[::1]:443''
   \<and> registered_api_root
     (snd (setup_kubernetes_client (example_env (Some []) (pod_vars ''my-host'' ''8443''))
        initial_world)) = Some ''https://my-host:8443''"
proof -
  have c: "conf_kubernetes_api_root
             (example_env (Some ''https://example:6443'') (pod_vars ''::1'' ''443'')) =
           Some ''https://example:6443'' \<and> ''https://example:6443'' \<noteq> []"
    by (simp add: example_env_def)
  have v6: "(conf_kubernetes_api_root (example_env None (pod_vars ''::1'' ''443'')) = None \<or>
        conf_kubernetes_api_root (example_env None (pod_vars ''::1'' ''443'')) = Some []) \<and>
       environ (example_env None (pod_vars ''::1'' ''443'')) ''KUBERNETES_SERVICE_HOST'' =
         Some ''::1'' \<and>
       environ (example_env None (pod_vars ''::1'' ''443''))
         ''KUBERNETES_SERVICE_PORT_HTTPS'' = Some ''443''"
    by (simp add: example_env_def pod_vars_def)
  have name: "(conf_kubernetes_api_root (example_env (Some []) (pod_vars ''my-host'' ''8443'')) =
          None \<or>
        conf_kubernetes_api_root (example_env (Some []) (pod_vars ''my-host'' ''8443'')) =
          Some []) \<and>
       environ (example_env (Some []) (pod_vars ''my-host'' ''8443''))
         ''KUBERNETES_SERVICE_HOST'' = Some ''my-host'' \<and>
       environ (example_env (Some []) (pod_vars ''my-host'' ''8443''))
         ''KUBERNETES_SERVICE_PORT_HTTPS'' = Some ''8443''"
    by (simp add: example_env_def pod_vars_def)
  show ?thesis
    using
      setup_kubernetes_client_api_root
        [of "example_env (Some ''https://example:6443'') (pod_vars ''::1'' ''443'')"
          "''https://example:6443''" initial_world "''::1''" "''443''"]
      setup_kubernetes_client_api_root
        [of "example_env None (pod_vars ''::1'' ''443'')" "[]" initial_world "''::1''" "''443''"]
      setup_kubernetes_client_api_root
        [of "example_env (Some []) (pod_vars ''my-host'' ''8443'')" "[]" initial_world
          "''my-host''" "''8443''"]
      c v6 name
    by (simp add: IPv6Address_init_loopback IPv6Address_init_hostname)
qed

section \<open>Missing configuration of the Kubernetes client\<close>

text \<open>
  Claim C3, as the code has it. When \<^verbatim>\<open>kubernetes.api_root\<close> is unset (or empty) and
  one of the two environment variables is absent, \<^verbatim>\<open>setup_kubernetes_client\<close> fails with
  the \<^verbatim>\<open>KeyError\<close> of \<^verbatim>\<open>os.environ\<close> for the first missing variable (the host is read
  first), and the registry is left as it was.
\<close>

theorem setup_kubernetes_client_missing_environ:
  "(conf_kubernetes_api_root env = None \<or> conf_kubernetes_api_root env = Some []) \<and>
   (environ env ''KUBERNETES_SERVICE_HOST'' = None \<or>
    environ env ''KUBERNETES_SERVICE_PORT_HTTPS'' = None) \<longrightarrow>
   setup_kubernetes_client env w =
     (Inl (KeyError (if environ env ''KUBERNETES_SERVICE_HOST'' = None
                     then ''KUBERNETES_SERVICE_HOST''
                     else ''KUBERNETES_SERVICE_PORT_HTTPS'')), w)"
proof
  assume a: "(conf_kubernetes_api_root env = None \<or> conf_kubernetes_api_root env = Some []) \<and>
   (environ env ''KUBERNETES_SERVICE_HOST'' = None \<or>
    environ env ''KUBERNETES_SERVICE_PORT_HTTPS'' = None)"
  then have "api_root env =
           Inl (KeyError (if environ env ''KUBERNETES_SERVICE_HOST'' = None
                          then ''KUBERNETES_SERVICE_HOST''
                          else ''KUBERNETES_SERVICE_PORT_HTTPS''))"
    by (intro api_root_missing_environ) simp_all
  then show "setup_kubernetes_client env w =
     (Inl (KeyError (if environ env ''KUBERNETES_SERVICE_HOST'' = None
                     then ''KUBERNETES_SERVICE_HOST''
                     else ''KUBERNETES_SERVICE_PORT_HTTPS'')), w)"
    by (rule setup_kubernetes_client_failure)
qed

text \<open>
  With nothing configured and an empty environment the failure is a \<^verbatim>\<open>KeyError\<close>, which
  is not the \<open>MissingConfiguration\<close> error of the claim as it was stated.
\<close>

theorem setup_kubernetes_client_missing_configuration_counterexample:
  "fst (setup_kubernetes_client (example_env None Map.empty) initial_world) =
     Inl (KeyError ''KUBERNETES_SERVICE_HOST'')
   \<and> fst (setup_kubernetes_client (example_env None Map.empty) initial_world) \<noteq>
     Inl MissingConfiguration"
  by (simp add: setup_kubernetes_client_def api_root_def subscript_environ_def example_env_def)

theorem setup_kubernetes_client_missing_environ_witness:
  "setup_kubernetes_client (example_env None Map.empty) initial_world =
     (Inl (KeyError ''KUBERNETES_SERVICE_HOST''), initial_world)
   \<and> setup_kubernetes_client
       (example_env (Some []) [''KUBERNETES_SERVICE_HOST'' \<mapsto> ''my-host'']) initial_world =
     (Inl (KeyError ''KUBERNETES_SERVICE_PORT_HTTPS''), initial_world)"
  using
    setup_kubernetes_client_missing_environ [of "example_env None Map.empty" initial_world]
    setup_kubernetes_client_missing_environ
      [of "example_env (Some []) [''KUBERNETES_SERVICE_HOST'' \<mapsto> ''my-host'']" initial_world]
  by (simp add: example_env_def)

section \<open>Bulk port creation\<close>

lemma create_ports_not_ok:
  assumes "transport self (Request ''POST'' Port_base_path payload) = Inr response"
    and "\<not> resp_ok response"
  shows "create_ports self payload =
           (Inl (SDKException (JStr ''Error when bulk creating ports: %s'')
                   (JStr (resp_text response))),
            self\<lparr>sent := sent self @ [Request ''POST'' Port_base_path payload]\<rparr>)"
  using assms by (simp add: create_ports_def post_def send_def)


text \<open>
  Claim C4 says that the \<^verbatim>\<open>SDKException\<close> raised for a response that is not ok has a
  message containing the response text. In the code the format string and the text are
  two arguments of the constructor, so the message stays the unformatted
  \<^verbatim>\<open>'Error when bulk creating ports: %s'\<close> and the text becomes \<^verbatim>\<open>extra_data\<close>: for the
  response text \<^verbatim>\<open>boom\<close> the message does not contain it.
\<close>

theorem create_ports_error_drops_response_text:
  "fst (create_ports (example_adapter (example_response False 500 ''boom'' (Inl ValueError)))
          (JDict [(''ports'', JList [])])) =
     Inl (SDKException (JStr ''Error when bulk creating ports: %s'') (JStr ''boom''))
   \<and> exc_message (SDKException (JStr ''Error when bulk creating ports: %s'') (JStr ''boom'')) =
       JStr ''Error when bulk creating ports: %s''
   \<and> \<not> sublist ''boom'' ''Error when bulk creating ports: %s''
   \<and> exc_extra_data (SDKException (JStr ''Error when bulk creating ports: %s'') (JStr ''boom'')) =
       JStr ''boom''"
proof -
  have "\<not> sublist ''boom'' ''Error when bulk creating ports: %s''"
    by code_simp
  then show ?thesis
    by (simp add: create_ports_def post_def send_def example_adapter_def example_response_def
        exc_message_def exc_extra_data_def)
qed

section \<open>The ports that bulk creation yields\<close>







section \<open>Trunk sub-port mutations\<close>

lemma add_trunk_subports_eq: "add_trunk_subports = trunk_subports_request ''add_subports''"
  by (intro ext) (simp add: add_trunk_subports_def trunk_subports_request_def)

lemma delete_trunk_subports_eq:
  "delete_trunk_subports = trunk_subports_request ''remove_subports''"
  by (intro ext) (simp add: delete_trunk_subports_def trunk_subports_request_def)

lemma trunk_subports_request_sent:
  "sent (snd (trunk_subports_request action self t subports)) =
     sent self @ [Request ''PUT'' (urljoin [''/trunks'', trunk_id (get_resource t), action])
                    (JDict [(''sub_ports'', subports)])]"
  by (simp add: trunk_subports_request_def Let_def put_def send_def
      split: sum.splits option.splits)

lemma trunk_subports_request_error:
  assumes "transport self
             (Request ''PUT'' (urljoin [''/trunks'', trunk_id (get_resource t), action])
                (JDict [(''sub_ports'', subports)])) = Inr response"
    and "400 \<le> resp_status_code response"
  shows "fst (trunk_subports_request action self t subports) =
           Inl (HttpException_init (http_exception_class (resp_status_code response)) JNull
                  (Some (resp_status_code response)))"
  using assms
  by (simp add: trunk_subports_request_def Let_def put_def send_def raise_from_response_def)

lemma trunk_subports_request_success:
  assumes "transport self
             (Request ''PUT'' (urljoin [''/trunks'', trunk_id (get_resource t), action])
                (JDict [(''sub_ports'', subports)])) = Inr response"
    and "resp_status_code response < 400"
  shows "fst (trunk_subports_request action self t subports) =
           Inr ((get_resource t)\<lparr>trunk_attributes :=
                  (trunk_attributes (get_resource t))(''sub_ports'' \<mapsto> subports)\<rparr>)"
  using assms
  by (simp add: trunk_subports_request_def Let_def put_def send_def raise_from_response_def)

text \<open>
  Claim C6, as the code has it. Each of the two mutations sends exactly one request, the
  \<^verbatim>\<open>PUT\<close> of the submitted sub-ports to the action URL of the trunk, and nothing else (the
  trunk is not fetched). On a 404 response it raises \<^verbatim>\<open>NotFoundException\<close>; on any other
  status from 400 on it raises another subclass of \<^verbatim>\<open>SDKException\<close>; on every status
  below 400 (2xx, and also 1xx and 3xx) it returns the trunk with the attribute
  \<^verbatim>\<open>sub_ports\<close> set to the submitted list and every other attribute as it was.
\<close>

theorem trunk_subports_mutation:
  "(mutate = add_trunk_subports \<and> action = ''add_subports'' \<or>
    mutate = delete_trunk_subports \<and> action = ''remove_subports'') \<and>
   transport self
     (Request ''PUT'' (urljoin [''/trunks'', trunk_id (get_resource t), action])
        (JDict [(''sub_ports'', subports)])) = Inr response \<longrightarrow>
     (resp_status_code response = 404 \<longrightarrow>
        (\<exists>e. fst (mutate self t subports) = Inl e \<and> is_NotFoundException e))
     \<and> (400 \<le> resp_status_code response \<and> resp_status_code response \<noteq> 404 \<longrightarrow>
        (\<exists>e. fst (mutate self t subports) = Inl e \<and> is_SDKException e \<and>
             \<not> is_NotFoundException e))
     \<and> (resp_status_code response < 400 \<longrightarrow>
        (\<exists>t'. fst (mutate self t subports) = Inr t' \<and>
              trunk_id t' = trunk_id (get_resource t) \<and>
              trunk_attributes t' =
                (trunk_attributes (get_resource t))(''sub_ports'' \<mapsto> subports)))
     \<and> sent (snd (mutate self t subports)) =
         sent self @ [Request ''PUT'' (urljoin [''/trunks'', trunk_id (get_resource t), action])
                        (JDict [(''sub_ports'', subports)])]"
proof (intro impI)
  assume a: "(mutate = add_trunk_subports \<and> action = ''add_subports'' \<or>
    mutate = delete_trunk_subports \<and> action = ''remove_subports'') \<and>
   transport self
     (Request ''PUT'' (urljoin [''/trunks'', trunk_id (get_resource t), action])
        (JDict [(''sub_ports'', subports)])) = Inr response"
  then have m: "mutate = trunk_subports_request action"
    by (auto simp: add_trunk_subports_eq delete_trunk_subports_eq)
  from a have tr: "transport self
     (Request ''PUT'' (urljoin [''/trunks'', trunk_id (get_resource t), action])
        (JDict [(''sub_ports'', subports)])) = Inr response"
    by simp
  have nf: "resp_status_code response = 404 \<longrightarrow>
        (\<exists>e. fst (mutate self t subports) = Inl e \<and> is_NotFoundException e)"
    unfolding m
    by (simp add: trunk_subports_request_error [OF tr] http_exception_class_def
        HttpException_init_def)
  have other: "400 \<le> resp_status_code response \<and> resp_status_code response \<noteq> 404 \<longrightarrow>
        (\<exists>e. fst (mutate self t subports) = Inl e \<and> is_SDKException e \<and>
             \<not> is_NotFoundException e)"
    unfolding m
    by (simp add: trunk_subports_request_error [OF tr] http_exception_class_def
        HttpException_init_def)
  have ok: "resp_status_code response < 400 \<longrightarrow>
        (\<exists>t'. fst (mutate self t subports) = Inr t' \<and>
              trunk_id t' = trunk_id (get_resource t) \<and>
              trunk_attributes t' =
                (trunk_attributes (get_resource t))(''sub_ports'' \<mapsto> subports))"
    unfolding m
    by (simp add: trunk_subports_request_success [OF tr])
  have log: "sent (snd (mutate self t subports)) =
         sent self @ [Request ''PUT'' (urljoin [''/trunks'', trunk_id (get_resource t), action])
                        (JDict [(''sub_ports'', subports)])]"
    unfolding m by (rule trunk_subports_request_sent)
  from nf other ok log show "(resp_status_code response = 404 \<longrightarrow>
        (\<exists>e. fst (mutate self t subports) = Inl e \<and> is_NotFoundException e))
     \<and> (400 \<le> resp_status_code response \<and> resp_status_code response \<noteq> 404 \<longrightarrow>
        (\<exists>e. fst (mutate self t subports) = Inl e \<and> is_SDKException e \<and>
             \<not> is_NotFoundException e))
     \<and> (resp_status_code response < 400 \<longrightarrow>
        (\<exists>t'. fst (mutate self t subports) = Inr t' \<and>
              trunk_id t' = trunk_id (get_resource t) \<and>
              trunk_attributes t' =
                (trunk_attributes (get_resource t))(''sub_ports'' \<mapsto> subports)))
     \<and> sent (snd (mutate self t subports)) =
         sent self @ [Request ''PUT'' (urljoin [''/trunks'', trunk_id (get_resource t), action])
                        (JDict [(''sub_ports'', subports)])]"
    by (intro conjI)
qed

text \<open>
  Responses with the status 302 and 100 are not successful (2xx) responses, yet neither
  mutation raises on them: the trunk is returned with its sub-ports overwritten.
\<close>

theorem trunk_subports_non_success_counterexample:
  "fst (add_trunk_subports (example_adapter (example_response True 302 [] (Inl ValueError)))
          (TrunkId ''t1'') (JList [JDict [(''port_id'', JStr ''p1'')]])) =
     Inr \<lparr>trunk_id = ''t1'',
          trunk_attributes = [''id'' \<mapsto> JStr ''t1'',
                              ''sub_ports'' \<mapsto> JList [JDict [(''port_id'', JStr ''p1'')]]]\<rparr>
   \<and> fst (delete_trunk_subports (example_adapter (example_response True 100 [] (Inl ValueError)))
          (TrunkId ''t1'') (JList [])) =
     Inr \<lparr>trunk_id = ''t1'',
          trunk_attributes = [''id'' \<mapsto> JStr ''t1'', ''sub_ports'' \<mapsto> JList []]\<rparr>"
  by (simp add: add_trunk_subports_def delete_trunk_subports_def get_resource_def put_def
      send_def raise_from_response_def example_adapter_def example_response_def)

theorem trunk_subports_mutation_witness:
  "(\<exists>e. fst (add_trunk_subports
             (example_adapter (example_response False 404 ''gone'' (Inl ValueError)))
             (TrunkId ''t1'') (JList [JDict [(''port_id'', JStr ''p1'')]])) = Inl e \<and>
        is_NotFoundException e)
   \<and> (\<exists>e. fst (delete_trunk_subports
             (example_adapter (example_response False 500 ''down'' (Inl ValueError)))
             (TrunkId ''t1'') (JList [JDict [(''port_id'', JStr ''p1'')]])) = Inl e \<and>
        is_SDKException e \<and> \<not> is_NotFoundException e)
   \<and> (\<exists>t'. fst (add_trunk_subports
             (example_adapter (example_response True 200 [] (Inl ValueError)))
             (TrunkId ''t1'') (JList [JDict [(''port_id'', JStr ''p1'')]])) = Inr t' \<and>
        trunk_id t' = ''t1'' \<and>
        trunk_attributes t' ''sub_ports'' = Some (JList [JDict [(''port_id'', JStr ''p1'')]]))
   \<and> sent (snd (add_trunk_subports
             (example_adapter (example_response True 200 [] (Inl ValueError)))
             (TrunkId ''t1'') (JList [JDict [(''port_id'', JStr ''p1'')]]))) =
       [Request ''PUT'' ''trunks/t1/add_subports''
          (JDict [(''sub_ports'', JList [JDict [(''port_id'', JStr ''p1'')]])])]"
proof -
  let ?sp = "JList [JDict [(''port_id'', JStr ''p1'')]]"
  let ?r404 = "example_response False 404 ''gone'' (Inl ValueError)"
  let ?r500 = "example_response False 500 ''down'' (Inl ValueError)"
  let ?r200 = "example_response True 200 [] (Inl ValueError)"
  have h404: "(add_trunk_subports = add_trunk_subports \<and> ''add_subports'' = ''add_subports'' \<or>
      add_trunk_subports = delete_trunk_subports \<and> ''add_subports'' = ''remove_subports'') \<and>
     transport (example_adapter ?r404)
       (Request ''PUT'' (urljoin [''/trunks'', trunk_id (get_resource (TrunkId ''t1'')),
          ''add_subports'']) (JDict [(''sub_ports'', ?sp)])) = Inr ?r404"
    by (simp add: example_adapter_def)
  have h500: "(delete_trunk_subports = add_trunk_subports \<and>
        ''remove_subports'' = ''add_subports'' \<or>
      delete_trunk_subports = delete_trunk_subports \<and>
        ''remove_subports'' = ''remove_subports'') \<and>
     transport (example_adapter ?r500)
       (Request ''PUT'' (urljoin [''/trunks'', trunk_id (get_resource (TrunkId ''t1'')),
          ''remove_subports'']) (JDict [(''sub_ports'', ?sp)])) = Inr ?r500"
    by (simp add: example_adapter_def)
  have h200: "(add_trunk_subports = add_trunk_subports \<and> ''add_subports'' = ''add_subports'' \<or>
      add_trunk_subports = delete_trunk_subports \<and> ''add_subports'' = ''remove_subports'') \<and>
     transport (example_adapter ?r200)
       (Request ''PUT'' (urljoin [''/trunks'', trunk_id (get_resource (TrunkId ''t1'')),
          ''add_subports'']) (JDict [(''sub_ports'', ?sp)])) = Inr ?r200"
    by (simp add: example_adapter_def)
  note a = trunk_subports_mutation [THEN mp, OF h404]
  note b = trunk_subports_mutation [THEN mp, OF h500]
  note c = trunk_subports_mutation [THEN mp, OF h200]
  have 1: "\<exists>e. fst (add_trunk_subports (example_adapter ?r404) (TrunkId ''t1'') ?sp) = Inl e \<and>
        is_NotFoundException e"
    by (rule a [THEN conjunct1, THEN mp]) (simp add: example_response_def)
  have 2: "\<exists>e. fst (delete_trunk_subports (example_adapter ?r500) (TrunkId ''t1'') ?sp) = Inl e \<and>
        is_SDKException e \<and> \<not> is_NotFoundException e"
    by (rule b [THEN conjunct2, THEN conjunct1, THEN mp]) (simp add: example_response_def)
  have "\<exists>t'. fst (add_trunk_subports (example_adapter ?r200) (TrunkId ''t1'') ?sp) = Inr t' \<and>
        trunk_id t' = trunk_id (get_resource (TrunkId ''t1'')) \<and>
        trunk_attributes t' =
          (trunk_attributes (get_resource (TrunkId ''t1'')))(''sub_ports'' \<mapsto> ?sp)"
    by (rule c [THEN conjunct2, THEN conjunct2, THEN conjunct1, THEN mp])
      (simp add: example_response_def)
  then have 3: "\<exists>t'. fst (add_trunk_subports (example_adapter ?r200) (TrunkId ''t1'') ?sp) =
        Inr t' \<and> trunk_id t' = ''t1'' \<and> trunk_attributes t' ''sub_ports'' = Some ?sp"
    by (auto simp: get_resource_def)
  have u: "urljoin [''/trunks'', trunk_id (get_resource (TrunkId ''t1'')), ''add_subports''] =
      ''trunks/t1/add_subports''"
    by (simp add: urljoin_def strip_slashes_def get_resource_def)
  have 4: "sent (snd (add_trunk_subports (example_adapter ?r200) (TrunkId ''t1'') ?sp)) =
       [Request ''PUT'' ''trunks/t1/add_subports'' (JDict [(''sub_ports'', ?sp)])]"
    using c [THEN conjunct2, THEN conjunct2, THEN conjunct2]
    by (simp add: u example_adapter_def)
  from 1 2 3 4 show ?thesis
    by (intro conjI)
qed

section \<open>Error translation\<close>

lemma handle_neutron_errors_envelope:
  assumes "method args = Inr (JDict d)"
    and "map_of d ''NeutronError'' = Some (JDict err)"
    and "map_of err ''type'' = Some (JStr ty)"
    and "map_of err ''message'' = Some (JStr msg)"
  shows "handle_neutron_errors method args =
           Inl (if ty \<in> {''RouterNotFound'', ''RouterInterfaceNotFoundForSubnet'',
                        ''SubnetNotFound''}
                then NotFoundException (JStr msg)
                else SDKException (JStr (ty @ '': '' @ msg)) JNull)"
  using assms
  by (auto simp: handle_neutron_errors_def raise_neutron_error_def not_found_types_def)

lemma handle_neutron_errors_no_envelope:
  assumes "method args = Inr (JDict d)" and "map_of d ''NeutronError'' = None"
  shows "handle_neutron_errors method args = Inr (JDict d)"
  using assms by (simp add: handle_neutron_errors_def)

text \<open>
  Claim C7. For a result dict with a \<^verbatim>\<open>NeutronError\<close> envelope that has a type and a
  message, \<^verbatim>\<open>handle_neutron_errors\<close> raises \<^verbatim>\<open>NotFoundException\<close> with the message when
  the type is one of \<^verbatim>\<open>RouterNotFound\<close>, \<^verbatim>\<open>RouterInterfaceNotFoundForSubnet\<close>,
  \<^verbatim>\<open>SubnetNotFound\<close>, and otherwise \<^verbatim>\<open>SDKException\<close> with the message
  \<^verbatim>\<open>type + ": " + message\<close>; a result dict without the envelope is returned unchanged.
\<close>

theorem handle_neutron_errors_translation:
  "method args = Inr (JDict d) \<longrightarrow>
     (map_of d ''NeutronError'' = Some (JDict err) \<and>
      map_of err ''type'' = Some (JStr ty) \<and> map_of err ''message'' = Some (JStr msg) \<longrightarrow>
        (ty \<in> {''RouterNotFound'', ''RouterInterfaceNotFoundForSubnet'', ''SubnetNotFound''} \<longrightarrow>
           handle_neutron_errors method args = Inl (NotFoundException (JStr msg)) \<and>
           is_NotFoundException (NotFoundException (JStr msg))) \<and>
        (ty \<notin> {''RouterNotFound'', ''RouterInterfaceNotFoundForSubnet'', ''SubnetNotFound''} \<longrightarrow>
           handle_neutron_errors method args =
             Inl (SDKException (JStr (ty @ '': '' @ msg)) JNull)))
     \<and> (map_of d ''NeutronError'' = None \<longrightarrow>
          handle_neutron_errors method args = Inr (JDict d))"
proof (intro impI conjI)
  assume m: "method args = Inr (JDict d)"
    and e: "map_of d ''NeutronError'' = Some (JDict err) \<and>
      map_of err ''type'' = Some (JStr ty) \<and> map_of err ''message'' = Some (JStr msg)"
    and t: "ty \<in> {''RouterNotFound'', ''RouterInterfaceNotFoundForSubnet'', ''SubnetNotFound''}"
  from handle_neutron_errors_envelope [of "method" "args" d err ty msg] m e t
  show "handle_neutron_errors method args = Inl (NotFoundException (JStr msg))"
    by simp
next
  show "is_NotFoundException (NotFoundException (JStr msg))"
    by (simp add: NotFoundException_def HttpException_init_def)
next
  assume m: "method args = Inr (JDict d)"
    and e: "map_of d ''NeutronError'' = Some (JDict err) \<and>
      map_of err ''type'' = Some (JStr ty) \<and> map_of err ''message'' = Some (JStr msg)"
    and t: "ty \<notin> {''RouterNotFound'', ''RouterInterfaceNotFoundForSubnet'', ''SubnetNotFound''}"
  from handle_neutron_errors_envelope [of "method" "args" d err ty msg] m e t
  show "handle_neutron_errors method args =
             Inl (SDKException (JStr (ty @ '': '' @ msg)) JNull)"
    by simp
next
  assume m: "method args = Inr (JDict d)" and n: "map_of d ''NeutronError'' = None"
  from handle_neutron_errors_no_envelope [of "method" "args" d] m n
  show "handle_neutron_errors method args = Inr (JDict d)"
    by simp
qed

theorem handle_neutron_errors_translation_witness:
  "handle_neutron_errors (\<lambda>u. Inr u)
     (JDict [(''NeutronError'',
              JDict [(''type'', JStr ''SubnetNotFound''), (''message'', JStr ''m'')])]) =
     Inl (NotFoundException (JStr ''m''))
   \<and> handle_neutron_errors (\<lambda>u. Inr u)
     (JDict [(''NeutronError'', JDict [(''type'', JStr ''Other''), (''message'', JStr ''m'')])]) =
     Inl (SDKException (JStr ''Other: m'') JNull)
   \<and> handle_neutron_errors (\<lambda>u. Inr u) (JDict [(''router'', JDict [(''id'', JStr ''r1'')])]) =
     Inr (JDict [(''router'', JDict [(''id'', JStr ''r1'')])])"
proof -
  let ?e1 = "[(''type'', JStr ''SubnetNotFound''), (''message'', JStr ''m'')]"
  let ?e2 = "[(''type'', JStr ''Other''), (''message'', JStr ''m'')]"
  let ?d3 = "[(''router'', JDict [(''id'', JStr ''r1'')])]"
  note a = handle_neutron_errors_translation
    [of "\<lambda>u. Inr u" "JDict [(''NeutronError'', JDict ?e1)]" "[(''NeutronError'', JDict ?e1)]"
      ?e1 "''SubnetNotFound''" "''m''"]
  note b = handle_neutron_errors_translation
    [of "\<lambda>u. Inr u" "JDict [(''NeutronError'', JDict ?e2)]" "[(''NeutronError'', JDict ?e2)]"
      ?e2 "''Other''" "''m''"]
  note c = handle_neutron_errors_translation [of "\<lambda>u. Inr u" "JDict ?d3" ?d3]
  have 1: "handle_neutron_errors (\<lambda>u. Inr u) (JDict [(''NeutronError'', JDict ?e1)]) =
     Inl (NotFoundException (JStr ''m''))"
    using a by simp
  have 2: "handle_neutron_errors (\<lambda>u. Inr u) (JDict [(''NeutronError'', JDict ?e2)]) =
     Inl (SDKException (JStr ''Other: m'') JNull)"
    using b by simp
  have 3: "handle_neutron_errors (\<lambda>u. Inr u) (JDict ?d3) = Inr (JDict ?d3)"
    using c by simp
  from 1 2 3 show ?thesis
    by (intro conjI)
qed

section \<open>The patch is in place before the connection is registered\<close>

lemma registry_inv_alloc_store:
  assumes "registry_inv w" and "key \<noteq> OPENSTACKSDK"
  shows "registry_inv (w\<lparr>clients := (clients w)(key \<mapsto> next_ref w),
                         heap := (heap w)(next_ref w \<mapsto> ob),
                         next_ref := Suc (next_ref w)\<rparr>)"
proof (cases "clients w OPENSTACKSDK")
  case None
  with assms show ?thesis by (simp add: registry_inv_def)
next
  case (Some c)
  with assms obtain s rg n l cc where c: "heap w c = Some (Connection s rg n l cc)"
    and p: "carries_patch w n"
    by (auto simp: registry_inv_def split: option.splits obj.splits)
  from assms have fresh: "heap w (next_ref w) = None"
    by (simp add: registry_inv_def)
  from c fresh have cn: "c \<noteq> next_ref w" by auto
  from p fresh have nn: "n \<noteq> next_ref w"
    by (auto simp: carries_patch_def)
  from p nn have "carries_patch (w\<lparr>clients := (clients w)(key \<mapsto> next_ref w),
                         heap := (heap w)(next_ref w \<mapsto> ob),
                         next_ref := Suc (next_ref w)\<rparr>) n"
    by (simp add: carries_patch_def)
  with assms Some c cn show ?thesis
    by (simp add: registry_inv_def)
qed

lemma registry_inv_initial: "registry_inv initial_world"
  by (simp add: registry_inv_def initial_world_def)

lemma registry_inv_warnings:
  "registry_inv (w\<lparr>warnings := ws\<rparr>) = registry_inv w"
  by (simp add: registry_inv_def carries_patch_def cong: option.case_cong obj.case_cong)

lemma take_stmts_cases:
  assumes "k \<le> length (openstacksdk_stmts conn)"
  shows "k = 0 \<or> k = 1 \<or> k = 2 \<or> k = 3 \<or> k = 4"
  using assms by (auto simp: openstacksdk_stmts_def)

lemma registry_inv_inside_setup_openstacksdk:
  assumes inv: "registry_inv w"
    and ci: "Connection_init session region w = (conn, w')"
    and k: "k \<le> length (openstacksdk_stmts conn)"
  shows "registry_inv (exec (take k (openstacksdk_stmts conn)) w')"
proof -
  from ci have conn: "conn = next_ref w + 3"
    and w': "w' = w\<lparr>heap := (heap w)(next_ref w \<mapsto> Proxy ''network'' Map.empty,
                          Suc (next_ref w) \<mapsto> Proxy ''load_balancer'' Map.empty,
                          Suc (Suc (next_ref w)) \<mapsto> Proxy ''compute'' Map.empty,
                          next_ref w + 3 \<mapsto>
                            Connection session region (next_ref w) (Suc (next_ref w))
                              (Suc (Suc (next_ref w)))),
        next_ref := next_ref w + 4\<rparr>"
    by (auto simp: Connection_init_eq)
  from inv have fresh: "\<And>r. next_ref w \<le> r \<Longrightarrow> heap w r = None"
    by (simp add: registry_inv_def)
  have old: "case clients w OPENSTACKSDK of
         None \<Rightarrow> True
       | Some c \<Rightarrow> c < next_ref w \<and>
           (\<exists>s rg n l cc. heap w c = Some (Connection s rg n l cc) \<and> n < next_ref w \<and>
              carries_patch w n)"
  proof (cases "clients w OPENSTACKSDK")
    case None
    then show ?thesis by simp
  next
    case (Some c)
    with inv obtain s rg n l cc where c: "heap w c = Some (Connection s rg n l cc)"
      and p: "carries_patch w n"
      by (auto simp: registry_inv_def split: option.splits obj.splits)
    from c fresh [of c] have "c < next_ref w"
      by (cases "c < next_ref w") auto
    moreover from p fresh [of n] have "n < next_ref w"
      by (cases "n < next_ref w") (auto simp: carries_patch_def)
    ultimately show ?thesis using Some c p by simp
  qed
  from take_stmts_cases [OF k] consider "k = 0" | "k = 1" | "k = 2" | "k = 3" | "k = 4"
    by blast
  then show ?thesis
  proof cases
    case 1
    with old fresh show ?thesis
      unfolding w' conn
      by (auto simp: exec_def registry_inv_def carries_patch_def split: option.splits)
  next
    case 2
    with old fresh show ?thesis
      unfolding w' conn
      by (auto simp: exec_def openstacksdk_stmts_def set_network_attr_def registry_inv_def
          carries_patch_def split: option.splits)
  next
    case 3
    with old fresh show ?thesis
      unfolding w' conn
      by (auto simp: exec_def openstacksdk_stmts_def set_network_attr_def registry_inv_def
          carries_patch_def eval_nat_numeral split: option.splits)
  next
    case 4
    with old fresh show ?thesis
      unfolding w' conn
      by (auto simp: exec_def openstacksdk_stmts_def set_network_attr_def registry_inv_def
          carries_patch_def eval_nat_numeral split: option.splits)
  next
    case 5
    with fresh show ?thesis
      unfolding w' conn
      by (auto simp: exec_def openstacksdk_stmts_def set_network_attr_def store_client_def
          registry_inv_def carries_patch_def eval_nat_numeral)
  qed
qed

lemma reachable_registry_inv:
  assumes "reachable w"
  shows "registry_inv w"
  using assms
proof (induction rule: reachable.induct)
  case start
  show ?case by (rule registry_inv_initial)
next
  case (after_setup_neutron_client w env)
  then show ?case
    by (cases "utils_get_neutron_client env")
      (simp_all add: setup_neutron_client_failure setup_neutron_client_success
        registry_inv_alloc_store key_defs)
next
  case (after_setup_kubernetes_client w env)
  then show ?case
    by (cases "api_root env")
      (simp_all add: setup_kubernetes_client_failure setup_kubernetes_client_success
        registry_inv_alloc_store key_defs)
next
  case (after_setup_pod_resources_client w env)
  then show ?case
    by (simp add: setup_pod_resources_client_eq registry_inv_alloc_store key_defs)
next
  case (after_get_neutron_client w)
  then show ?case
    by (simp add: get_neutron_client_def removals_remove_def registry_inv_warnings)
next
  case (inside_setup_openstacksdk w env auth_plugin session conn w' k)
  then show ?case
    by (intro registry_inv_inside_setup_openstacksdk [where w = w]) simp_all
qed

lemma reachable_after_setup_openstacksdk:
  assumes "reachable w"
  shows "reachable (snd (setup_openstacksdk env w))"
proof (cases "utils_get_auth_plugin env ''neutron''")
  case (Inl e)
  with assms show ?thesis by (simp add: setup_openstacksdk_def)
next
  case p: (Inr p)
  show ?thesis
  proof (cases "utils_get_keystone_session env ''neutron'' p")
    case (Inl e)
    with p assms show ?thesis by (simp add: setup_openstacksdk_def)
  next
    case s: (Inr s)
    obtain conn w' where ci: "Connection_init s (conf_neutron_region_name env) w = (conn, w')"
      by (cases "Connection_init s (conf_neutron_region_name env) w")
    have "reachable (exec (take (length (openstacksdk_stmts conn)) (openstacksdk_stmts conn)) w')"
      by (rule reachable.inside_setup_openstacksdk [OF assms p s ci]) simp
    with p s ci show ?thesis by (simp add: setup_openstacksdk_def)
  qed
qed

lemma reachable_after_setup_clients:
  assumes "reachable w"
  shows "reachable (snd (setup_clients env w))"
proof -
  obtain r1 w1 where n: "setup_neutron_client env w = (r1, w1)"
    by (cases "setup_neutron_client env w")
  obtain r2 w2 where k: "setup_kubernetes_client env w1 = (r2, w2)"
    by (cases "setup_kubernetes_client env w1")
  from reachable.after_setup_neutron_client [OF assms, of env] n have r1: "reachable w1"
    by simp
  from reachable.after_setup_kubernetes_client [OF r1, of env] k have r2: "reachable w2"
    by simp
  from reachable_after_setup_openstacksdk [OF r2, of env] have "reachable (snd (setup_openstacksdk env w2))" .
  with n k r1 r2 show ?thesis
    by (simp add: setup_clients_def split: sum.splits)
qed

lemma patch_precedes_registry_write:
  assumes ci: "Connection_init session region w = (conn, w')"
  shows "clients (exec (take 0 (openstacksdk_stmts conn)) w') = clients w"
    and "clients (exec (take 1 (openstacksdk_stmts conn)) w') = clients w"
    and "clients (exec (take 2 (openstacksdk_stmts conn)) w') = clients w"
    and "clients (exec (take 3 (openstacksdk_stmts conn)) w') = clients w"
    and "carries_patch (exec (take 3 (openstacksdk_stmts conn)) w') (next_ref w)"
    and "exec (openstacksdk_stmts conn) w' =
           store_client OPENSTACKSDK conn (exec (take 3 (openstacksdk_stmts conn)) w')"
    and "heap (exec (openstacksdk_stmts conn) w') conn =
           Some (Connection session region (next_ref w) (Suc (next_ref w))
                   (Suc (Suc (next_ref w))))"
proof -
  from ci have conn: "conn = next_ref w + 3"
    and w': "w' = w\<lparr>heap := (heap w)(next_ref w \<mapsto> Proxy ''network'' Map.empty,
                          Suc (next_ref w) \<mapsto> Proxy ''load_balancer'' Map.empty,
                          Suc (Suc (next_ref w)) \<mapsto> Proxy ''compute'' Map.empty,
                          next_ref w + 3 \<mapsto>
                            Connection session region (next_ref w) (Suc (next_ref w))
                              (Suc (Suc (next_ref w)))),
        next_ref := next_ref w + 4\<rparr>"
    by (auto simp: Connection_init_eq)
  show "clients (exec (take 0 (openstacksdk_stmts conn)) w') = clients w"
    unfolding w' conn by (simp add: exec_def)
  show "clients (exec (take 1 (openstacksdk_stmts conn)) w') = clients w"
    unfolding w' conn by (simp add: exec_def openstacksdk_stmts_def set_network_attr_def)
  show "clients (exec (take 2 (openstacksdk_stmts conn)) w') = clients w"
    unfolding w' conn
    by (simp add: exec_def openstacksdk_stmts_def set_network_attr_def eval_nat_numeral)
  show "clients (exec (take 3 (openstacksdk_stmts conn)) w') = clients w"
    unfolding w' conn
    by (simp add: exec_def openstacksdk_stmts_def set_network_attr_def eval_nat_numeral)
  show "carries_patch (exec (take 3 (openstacksdk_stmts conn)) w') (next_ref w)"
    unfolding w' conn
    by (simp add: exec_def openstacksdk_stmts_def set_network_attr_def eval_nat_numeral
        carries_patch_def)
  show "exec (openstacksdk_stmts conn) w' =
           store_client OPENSTACKSDK conn (exec (take 3 (openstacksdk_stmts conn)) w')"
    by (simp add: exec_def openstacksdk_stmts_def eval_nat_numeral)
  show "heap (exec (openstacksdk_stmts conn) w') conn =
           Some (Connection session region (next_ref w) (Suc (next_ref w))
                   (Suc (Suc (next_ref w))))"
    unfolding w' conn
    by (simp add: exec_def openstacksdk_stmts_def set_network_attr_def store_client_def)
qed

text \<open>
  Claim C8. In every state that a caller can observe, also between two statements of
  \<^verbatim>\<open>setup_openstacksdk\<close>, a client returned by \<^verbatim>\<open>get_network_client\<close> carries the three
  extra operations. Inside \<^verbatim>\<open>setup_openstacksdk\<close> the registry is untouched while the three
  attributes are set, the network sub-client carries the patch after the third statement,
  and the fourth and last statement is the registry write of that connection.
\<close>

theorem network_client_always_patched:
  "(reachable w \<and> fst (get_network_client w) = Inr n \<longrightarrow> carries_patch w n)
   \<and> (Connection_init session region w0 = (conn, w') \<longrightarrow>
        (\<forall>k \<le> 3. clients (exec (take k (openstacksdk_stmts conn)) w') = clients w0) \<and>
        carries_patch (exec (take 3 (openstacksdk_stmts conn)) w') (next_ref w0) \<and>
        exec (openstacksdk_stmts conn) w' =
          store_client OPENSTACKSDK conn (exec (take 3 (openstacksdk_stmts conn)) w') \<and>
        fst (get_network_client (exec (openstacksdk_stmts conn) w')) = Inr (next_ref w0))"
proof (intro conjI impI)
  assume a: "reachable w \<and> fst (get_network_client w) = Inr n"
  then have inv: "registry_inv w"
    by (simp add: reachable_registry_inv)
  from a obtain c where c: "clients w OPENSTACKSDK = Some c"
    by (cases "clients w OPENSTACKSDK")
      (simp_all add: get_network_client_def subscript_clients_def)
  with inv obtain s rg n' l cc where h: "heap w c = Some (Connection s rg n' l cc)"
    and p: "carries_patch w n'"
    by (auto simp: registry_inv_def split: option.splits obj.splits)
  from a c h have "n = n'"
    by (simp add: get_network_client_def subscript_clients_def attr_of_connection_def)
  with p show "carries_patch w n" by simp
next
  assume ci: "Connection_init session region w0 = (conn, w')"
  show "\<forall>k \<le> 3. clients (exec (take k (openstacksdk_stmts conn)) w') = clients w0"
  proof (intro allI impI)
    fix k :: nat
    assume "k \<le> 3"
    then consider "k = 0" | "k = 1" | "k = 2" | "k = 3"
      by linarith
    then show "clients (exec (take k (openstacksdk_stmts conn)) w') = clients w0"
      using patch_precedes_registry_write(1-4) [OF ci] by cases simp_all
  qed
  show "carries_patch (exec (take 3 (openstacksdk_stmts conn)) w') (next_ref w0)"
    by (rule patch_precedes_registry_write(5) [OF ci])
  show "exec (openstacksdk_stmts conn) w' =
          store_client OPENSTACKSDK conn (exec (take 3 (openstacksdk_stmts conn)) w')"
    by (rule patch_precedes_registry_write(6) [OF ci])
  show "fst (get_network_client (exec (openstacksdk_stmts conn) w')) = Inr (next_ref w0)"
    using patch_precedes_registry_write(6,7) [OF ci]
    by (simp add: get_network_client_def subscript_clients_def store_client_def
        attr_of_connection_def)
qed

theorem network_client_always_patched_witness:
  "reachable (snd (setup_clients (example_env None (pod_vars ''::1'' ''443'')) initial_world))
   \<and> fst (get_network_client
        (snd (setup_clients (example_env None (pod_vars ''::1'' ''443'')) initial_world))) =
      Inr 2
   \<and> carries_patch
        (snd (setup_clients (example_env None (pod_vars ''::1'' ''443'')) initial_world)) 2
   \<and> clients (exec (take 3 (openstacksdk_stmts (fst (Connection_init 0 None initial_world))))
        (snd (Connection_init 0 None initial_world))) = Map.empty
   \<and> carries_patch
        (exec (take 3 (openstacksdk_stmts (fst (Connection_init 0 None initial_world))))
           (snd (Connection_init 0 None initial_world))) 0"
proof -
  let ?w = "snd (setup_clients (example_env None (pod_vars ''::1'' ''443'')) initial_world)"
  have r: "reachable ?w"
    by (rule reachable_after_setup_clients [OF reachable.start])
  have g: "fst (get_network_client ?w) = Inr 2"
    by (simp add: setup_clients_example get_network_client_def subscript_clients_def
        attr_of_connection_def key_defs)
  have ci: "Connection_init 0 None initial_world =
      (fst (Connection_init 0 None initial_world), snd (Connection_init 0 None initial_world))"
    by simp
  have z: "next_ref initial_world = 0" "clients initial_world = Map.empty"
    by (simp_all add: initial_world_def)
  show ?thesis
    using network_client_always_patched [of ?w 2 0 None initial_world
        "fst (Connection_init 0 None initial_world)" "snd (Connection_init 0 None initial_world)"]
      r g ci z
    by simp
qed

section \<open>The deprecated accessor\<close>

lemma neutron_inv_alloc_store:
  assumes "neutron_inv w" and "key \<noteq> NEUTRON_CLIENT"
  shows "neutron_inv (w\<lparr>clients := (clients w)(key \<mapsto> next_ref w),
                         heap := (heap w)(next_ref w \<mapsto> ob),
                         next_ref := Suc (next_ref w)\<rparr>)"
proof (cases "clients w NEUTRON_CLIENT")
  case None
  with assms show ?thesis by (simp add: neutron_inv_def)
next
  case (Some r)
  with assms have r: "heap w r = Some NeutronClient"
    by (simp add: neutron_inv_def)
  from assms have fresh: "heap w (next_ref w) = None"
    by (simp add: neutron_inv_def)
  from r fresh have "r \<noteq> next_ref w" by auto
  with assms Some r show ?thesis
    by (simp add: neutron_inv_def)
qed

lemma neutron_inv_setup_neutron_client:
  assumes "neutron_inv w"
  shows "neutron_inv (w\<lparr>clients := (clients w)(NEUTRON_CLIENT \<mapsto> next_ref w),
                         heap := (heap w)(next_ref w \<mapsto> NeutronClient),
                         next_ref := Suc (next_ref w)\<rparr>)"
  using assms by (simp add: neutron_inv_def)

lemma neutron_inv_inside_setup_openstacksdk:
  assumes inv: "neutron_inv w"
    and ci: "Connection_init session region w = (conn, w')"
    and k: "k \<le> length (openstacksdk_stmts conn)"
  shows "neutron_inv (exec (take k (openstacksdk_stmts conn)) w')"
proof -
  from ci have conn: "conn = next_ref w + 3"
    and w': "w' = w\<lparr>heap := (heap w)(next_ref w \<mapsto> Proxy ''network'' Map.empty,
                          Suc (next_ref w) \<mapsto> Proxy ''load_balancer'' Map.empty,
                          Suc (Suc (next_ref w)) \<mapsto> Proxy ''compute'' Map.empty,
                          next_ref w + 3 \<mapsto>
                            Connection session region (next_ref w) (Suc (next_ref w))
                              (Suc (Suc (next_ref w)))),
        next_ref := next_ref w + 4\<rparr>"
    by (auto simp: Connection_init_eq)
  from inv have fresh: "\<And>r. next_ref w \<le> r \<Longrightarrow> heap w r = None"
    by (simp add: neutron_inv_def)
  have old: "case clients w NEUTRON_CLIENT of
         None \<Rightarrow> True
       | Some r \<Rightarrow> r < next_ref w \<and> heap w r = Some NeutronClient"
  proof (cases "clients w NEUTRON_CLIENT")
    case None
    then show ?thesis by simp
  next
    case (Some r)
    with inv have r: "heap w r = Some NeutronClient"
      by (simp add: neutron_inv_def)
    with fresh [of r] have "r < next_ref w"
      by (cases "r < next_ref w") auto
    with Some r show ?thesis by simp
  qed
  from take_stmts_cases [OF k] consider "k = 0" | "k = 1" | "k = 2" | "k = 3" | "k = 4"
    by blast
  then show ?thesis
  proof cases
    case 1
    with old fresh show ?thesis
      unfolding w' conn
      by (auto simp: exec_def neutron_inv_def split: option.splits)
  next
    case 2
    with old fresh show ?thesis
      unfolding w' conn
      by (auto simp: exec_def openstacksdk_stmts_def set_network_attr_def neutron_inv_def
          split: option.splits)
  next
    case 3
    with old fresh show ?thesis
      unfolding w' conn
      by (auto simp: exec_def openstacksdk_stmts_def set_network_attr_def neutron_inv_def
          eval_nat_numeral split: option.splits)
  next
    case 4
    with old fresh show ?thesis
      unfolding w' conn
      by (auto simp: exec_def openstacksdk_stmts_def set_network_attr_def neutron_inv_def
          eval_nat_numeral split: option.splits)
  next
    case 5
    with old fresh show ?thesis
      unfolding w' conn
      by (auto simp: exec_def openstacksdk_stmts_def set_network_attr_def store_client_def
          neutron_inv_def eval_nat_numeral key_defs split: option.splits)
  qed
qed

lemma reachable_neutron_inv:
  assumes "reachable w"
  shows "neutron_inv w"
  using assms
proof (induction rule: reachable.induct)
  case start
  show ?case by (simp add: neutron_inv_def initial_world_def)
next
  case (after_setup_neutron_client w env)
  then show ?case
    by (cases "utils_get_neutron_client env")
      (simp_all add: setup_neutron_client_failure setup_neutron_client_success
        neutron_inv_setup_neutron_client)
next
  case (after_setup_kubernetes_client w env)
  then show ?case
    by (cases "api_root env")
      (simp_all add: setup_kubernetes_client_failure setup_kubernetes_client_success
        neutron_inv_alloc_store key_defs)
next
  case (after_setup_pod_resources_client w env)
  then show ?case
    by (simp add: setup_pod_resources_client_eq neutron_inv_alloc_store key_defs)
next
  case (after_get_neutron_client w)
  then show ?case
    by (simp add: get_neutron_client_def removals_remove_def neutron_inv_def
        cong: option.case_cong)
next
  case (inside_setup_openstacksdk w env auth_plugin session conn w' k)
  then show ?case
    by (intro neutron_inv_inside_setup_openstacksdk [where w = w]) simp_all
qed

lemma get_neutron_client_eq:
  "get_neutron_client w =
     ((case clients w NEUTRON_CLIENT of
         None \<Rightarrow> Inl (KeyError ''neutron-client'')
       | Some r \<Rightarrow> Inr r),
      w\<lparr>warnings := warnings w @ [''get_neutron_client'']\<rparr>)"
  by (simp add: get_neutron_client_def removals_remove_def subscript_clients_def
      NEUTRON_CLIENT_def)

lemma reachable_neutron_handle:
  assumes "reachable w" and "fst (get_neutron_client w) = Inr r"
  shows "heap w r = Some NeutronClient"
proof -
  from assms(2) have "clients w NEUTRON_CLIENT = Some r"
    by (simp add: get_neutron_client_eq split: option.splits)
  with reachable_neutron_inv [OF assms(1)] show ?thesis
    by (simp add: neutron_inv_def)
qed

lemma reachable_sdk_handles:
  assumes "reachable w" and "clients w OPENSTACKSDK = Some c"
  shows "\<exists>s rg n l cc svc attrs.
           heap w c = Some (Connection s rg n l cc) \<and> heap w n = Some (Proxy svc attrs)"
proof -
  from reachable_registry_inv [OF assms(1)] assms(2)
  obtain s rg n l cc where h: "heap w c = Some (Connection s rg n l cc)"
    and p: "carries_patch w n"
    by (auto simp: registry_inv_def split: option.splits obj.splits)
  from p obtain svc attrs where "heap w n = Some (Proxy svc attrs)"
    by (auto simp: carries_patch_def split: option.splits obj.splits)
  with h show ?thesis by blast
qed

text \<open>
  Claim C9, as the code has it. Every call of \<^verbatim>\<open>get_neutron_client\<close> emits one
  deprecation warning and then returns the handle registered under the key
  \<^verbatim>\<open>neutron-client\<close> (a \<^verbatim>\<open>KeyError\<close> when there is none); after
  \<^verbatim>\<open>setup_neutron_client\<close> that is the client which this factory constructed and stored.
  In every state the module can reach the handle is a neutron client object, while
  \<^verbatim>\<open>get_network_client\<close> returns a service proxy, the network sub-client of the connection
  registered under \<^verbatim>\<open>openstacksdk\<close>: the deprecated accessor never returns the object that
  the network accessor returns, nor the connection that \<^verbatim>\<open>get_openstacksdk\<close> returns.
\<close>

theorem get_neutron_client_warns_and_delegates:
  "get_neutron_client w =
     ((case clients w NEUTRON_CLIENT of
         None \<Rightarrow> Inl (KeyError ''neutron-client'')
       | Some r \<Rightarrow> Inr r),
      w\<lparr>warnings := warnings w @ [''get_neutron_client'']\<rparr>)
   \<and> (setup_neutron_client env w = (Inr (), w1) \<longrightarrow>
        fst (get_neutron_client w1) = Inr (next_ref w) \<and>
        heap w1 (next_ref w) = Some NeutronClient)
   \<and> (reachable w2 \<and> fst (get_neutron_client w2) = Inr r \<longrightarrow>
        heap w2 r = Some NeutronClient)
   \<and> (reachable w2 \<and> fst (get_network_client w2) = Inr n \<longrightarrow>
        (\<exists>svc attrs. heap w2 n = Some (Proxy svc attrs)))
   \<and> (reachable w2 \<and> fst (get_neutron_client w2) = Inr r \<and>
       fst (get_network_client w2) = Inr n \<longrightarrow> r \<noteq> n)
   \<and> (reachable w2 \<and> fst (get_neutron_client w2) = Inr r \<and>
       fst (get_openstacksdk w2) = Inr c \<longrightarrow> r \<noteq> c)"
proof (intro conjI impI)
  show "get_neutron_client w =
     ((case clients w NEUTRON_CLIENT of
         None \<Rightarrow> Inl (KeyError ''neutron-client'')
       | Some r \<Rightarrow> Inr r),
      w\<lparr>warnings := warnings w @ [''get_neutron_client'']\<rparr>)"
    by (rule get_neutron_client_eq)
next
  assume a: "setup_neutron_client env w = (Inr (), w1)"
  then obtain u where u: "utils_get_neutron_client env = Inr u"
    by (cases "utils_get_neutron_client env") (simp_all add: setup_neutron_client_failure)
  from a have w1: "w1 = w\<lparr>clients := (clients w)(NEUTRON_CLIENT \<mapsto> next_ref w),
                heap := (heap w)(next_ref w \<mapsto> NeutronClient),
                next_ref := Suc (next_ref w)\<rparr>"
    by (simp add: setup_neutron_client_success [OF u])
  show "fst (get_neutron_client w1) = Inr (next_ref w)"
    using w1 by (simp add: get_neutron_client_eq)
  show "heap w1 (next_ref w) = Some NeutronClient"
    using w1 by simp
next
  assume "reachable w2 \<and> fst (get_neutron_client w2) = Inr r"
  then show "heap w2 r = Some NeutronClient"
    by (simp add: reachable_neutron_handle)
next
  assume a: "reachable w2 \<and> fst (get_network_client w2) = Inr n"
  then obtain c where c: "clients w2 OPENSTACKSDK = Some c"
    by (cases "clients w2 OPENSTACKSDK")
      (simp_all add: get_network_client_def subscript_clients_def)
  from a reachable_sdk_handles [OF _ c]
  obtain s rg n' l cc svc attrs where h: "heap w2 c = Some (Connection s rg n' l cc)"
    and p: "heap w2 n' = Some (Proxy svc attrs)"
    by blast
  from a c h have "n = n'"
    by (simp add: get_network_client_def subscript_clients_def attr_of_connection_def)
  with p show "\<exists>svc attrs. heap w2 n = Some (Proxy svc attrs)"
    by blast
next
  assume a: "reachable w2 \<and> fst (get_neutron_client w2) = Inr r \<and>
       fst (get_network_client w2) = Inr n"
  then have r: "heap w2 r = Some NeutronClient"
    by (simp add: reachable_neutron_handle)
  from a obtain c where c: "clients w2 OPENSTACKSDK = Some c"
    by (cases "clients w2 OPENSTACKSDK")
      (simp_all add: get_network_client_def subscript_clients_def)
  from a reachable_sdk_handles [OF _ c]
  obtain s rg n' l cc svc attrs where h: "heap w2 c = Some (Connection s rg n' l cc)"
    and p: "heap w2 n' = Some (Proxy svc attrs)"
    by blast
  from a c h have "n = n'"
    by (simp add: get_network_client_def subscript_clients_def attr_of_connection_def)
  with p r show "r \<noteq> n"
    by auto
next
  assume a: "reachable w2 \<and> fst (get_neutron_client w2) = Inr r \<and>
       fst (get_openstacksdk w2) = Inr c"
  then have r: "heap w2 r = Some NeutronClient"
    by (simp add: reachable_neutron_handle)
  from a have c: "clients w2 OPENSTACKSDK = Some c"
    by (cases "clients w2 OPENSTACKSDK")
      (simp_all add: get_openstacksdk_def subscript_clients_def)
  from a reachable_sdk_handles [OF _ c]
  obtain s rg n' l cc where "heap w2 c = Some (Connection s rg n' l cc)"
    by blast
  with r show "r \<noteq> c"
    by auto
qed

text \<open>
  After \<^verbatim>\<open>setup_clients\<close> the deprecated accessor returns the neutron client (object 0),
  the network accessor the network sub-client of the SDK connection (object 2), and
  \<^verbatim>\<open>get_openstacksdk\<close> the connection (object 5): not the same handle.
\<close>

theorem get_neutron_client_same_handle_counterexample:
  "fst (get_neutron_client
          (snd (setup_clients (example_env None (pod_vars ''::1'' ''443'')) initial_world))) =
     Inr 0
   \<and> fst (get_network_client
          (snd (setup_clients (example_env None (pod_vars ''::1'' ''443'')) initial_world))) =
     Inr 2
   \<and> fst (get_openstacksdk
          (snd (setup_clients (example_env None (pod_vars ''::1'' ''443'')) initial_world))) =
     Inr 5
   \<and> fst (get_neutron_client
          (snd (setup_clients (example_env None (pod_vars ''::1'' ''443'')) initial_world))) \<noteq>
       fst (get_network_client
          (snd (setup_clients (example_env None (pod_vars ''::1'' ''443'')) initial_world)))"
  by (simp add: setup_clients_example get_neutron_client_def removals_remove_def
      get_network_client_def get_openstacksdk_def subscript_clients_def
      attr_of_connection_def key_defs)

theorem get_neutron_client_warns_and_delegates_witness:
  "fst (get_neutron_client
          (snd (setup_neutron_client (example_env None (pod_vars ''::1'' ''443''))
             initial_world))) = Inr 0
   \<and> warnings (snd (get_neutron_client initial_world)) = [''get_neutron_client'']
   \<and> heap (snd (setup_clients (example_env None (pod_vars ''::1'' ''443'')) initial_world)) 0 =
       Some NeutronClient
   \<and> (\<exists>svc attrs.
         heap (snd (setup_clients (example_env None (pod_vars ''::1'' ''443'')) initial_world)) 2 =
           Some (Proxy svc attrs))
   \<and> (0 :: nat) \<noteq> 2 \<and> (0 :: nat) \<noteq> 5"
proof -
  let ?env = "example_env None (pod_vars ''::1'' ''443'')"
  let ?w1 = "snd (setup_neutron_client ?env initial_world)"
  let ?w2 = "snd (setup_clients ?env initial_world)"
  have n: "setup_neutron_client ?env initial_world = (Inr (), ?w1)"
    by (simp add: setup_neutron_client_success [where u = "()"] example_env_def)
  have z: "next_ref initial_world = 0" "warnings initial_world = []"
    by (simp_all add: initial_world_def)
  have reach: "reachable ?w2"
    by (rule reachable_after_setup_clients [OF reachable.start])
  have g: "fst (get_neutron_client ?w2) = Inr 0"
    and g': "fst (get_network_client ?w2) = Inr 2"
    and g'': "fst (get_openstacksdk ?w2) = Inr 5"
    by (simp_all add: setup_clients_example get_neutron_client_def removals_remove_def
        get_network_client_def get_openstacksdk_def subscript_clients_def
        attr_of_connection_def key_defs)
  note t = get_neutron_client_warns_and_delegates [of initial_world ?env ?w1 ?w2 0 2 5]
  have 1: "fst (get_neutron_client ?w1) = Inr 0"
    using t [THEN conjunct2, THEN conjunct1, THEN mp, OF n] z by simp
  have 2: "warnings (snd (get_neutron_client initial_world)) = [''get_neutron_client'']"
    using t [THEN conjunct1] z by simp
  have 3: "heap ?w2 0 = Some NeutronClient"
    using t [THEN conjunct2, THEN conjunct2, THEN conjunct1] reach g by simp
  have 4: "\<exists>svc attrs. heap ?w2 2 = Some (Proxy svc attrs)"
    using t [THEN conjunct2, THEN conjunct2, THEN conjunct2, THEN conjunct1] reach g' by simp
  have 5: "(0 :: nat) \<noteq> 2"
    using t [THEN conjunct2, THEN conjunct2, THEN conjunct2, THEN conjunct2, THEN conjunct1]
      reach g g' by simp
  have 6: "(0 :: nat) \<noteq> 5"
    using t [THEN conjunct2, THEN conjunct2, THEN conjunct2, THEN conjunct2, THEN conjunct2]
      reach g g'' by simp
  from 1 2 3 4 5 6 show ?thesis
    by (intro conjI)
qed

section \<open>Which registry entries a function writes\<close>

lemma clients_setup_neutron_client:
  "clients (snd (setup_neutron_client env w)) =
     (case utils_get_neutron_client env of
        Inl e \<Rightarrow> clients w
      | Inr u \<Rightarrow> (clients w)(NEUTRON_CLIENT \<mapsto> next_ref w))"
  by (simp add: setup_neutron_client_def alloc_def store_client_def split: sum.splits)

lemma clients_setup_kubernetes_client:
  "clients (snd (setup_kubernetes_client env w)) =
     (case api_root env of
        Inl e \<Rightarrow> clients w
      | Inr root \<Rightarrow> (clients w)(KUBERNETES_CLIENT \<mapsto> next_ref w))"
  by (simp add: setup_kubernetes_client_def alloc_def store_client_def split: sum.splits)

lemma clients_setup_pod_resources_client:
  "clients (snd (setup_pod_resources_client env w)) =
     (clients w)(POD_RESOURCES_CLIENT \<mapsto> next_ref w)"
  by (simp add: setup_pod_resources_client_eq)

lemma clients_setup_openstacksdk:
  "clients (snd (setup_openstacksdk env w)) k =
     (if k = OPENSTACKSDK \<and> fst (setup_openstacksdk env w) = Inr ()
      then Some (next_ref w + 3) else clients w k)"
proof (cases "utils_get_auth_plugin env ''neutron''")
  case (Inl e)
  then show ?thesis by (simp add: setup_openstacksdk_def)
next
  case p: (Inr p)
  show ?thesis
  proof (cases "utils_get_keystone_session env ''neutron'' p")
    case (Inl e)
    with p show ?thesis by (simp add: setup_openstacksdk_def)
  next
    case (Inr s)
    show ?thesis by (simp add: setup_openstacksdk_success [OF p Inr])
  qed
qed

lemma clients_setup_clients:
  assumes "k \<noteq> NEUTRON_CLIENT" and "k \<noteq> KUBERNETES_CLIENT" and "k \<noteq> OPENSTACKSDK"
  shows "clients (snd (setup_clients env w)) k = clients w k"
proof -
  obtain r1 w1 where n: "setup_neutron_client env w = (r1, w1)"
    by (cases "setup_neutron_client env w")
  obtain r2 w2 where k: "setup_kubernetes_client env w1 = (r2, w2)"
    by (cases "setup_kubernetes_client env w1")
  have c1: "clients w1 k = clients w k"
    using clients_setup_neutron_client [of env w] n assms(1) by (simp split: sum.splits)
  have c2: "clients w2 k = clients w1 k"
    using clients_setup_kubernetes_client [of env w1] k assms(2) by (simp split: sum.splits)
  have c3: "clients (snd (setup_openstacksdk env w2)) k = clients w2 k"
    using assms(3) by (simp add: clients_setup_openstacksdk)
  show ?thesis
    using n k c1 c2 c3 by (simp add: setup_clients_def split: sum.splits)
qed

text \<open>
  Claim C10. Whether it returns or raises, a setup function leaves every registry entry
  other than the one of its own kind as it was; \<^verbatim>\<open>setup_clients\<close> touches the three
  entries of the factories it calls and never the pod-resources entry; no accessor changes
  the registry.
\<close>

theorem setup_writes_only_its_own_entry:
  "(k \<noteq> NEUTRON_CLIENT \<longrightarrow> clients (snd (setup_neutron_client env w)) k = clients w k)
   \<and> (k \<noteq> KUBERNETES_CLIENT \<longrightarrow>
        clients (snd (setup_kubernetes_client env w)) k = clients w k)
   \<and> (k \<noteq> OPENSTACKSDK \<longrightarrow> clients (snd (setup_openstacksdk env w)) k = clients w k)
   \<and> (k \<noteq> POD_RESOURCES_CLIENT \<longrightarrow>
        clients (snd (setup_pod_resources_client env w)) k = clients w k)
   \<and> (k \<noteq> NEUTRON_CLIENT \<and> k \<noteq> KUBERNETES_CLIENT \<and> k \<noteq> OPENSTACKSDK \<longrightarrow>
        clients (snd (setup_clients env w)) k = clients w k)
   \<and> clients (snd (setup_clients env w)) POD_RESOURCES_CLIENT = clients w POD_RESOURCES_CLIENT
   \<and> clients (snd (get_network_client w)) = clients w
   \<and> clients (snd (get_neutron_client w)) = clients w
   \<and> clients (snd (get_openstacksdk w)) = clients w
   \<and> clients (snd (get_loadbalancer_client w)) = clients w
   \<and> clients (snd (get_kubernetes_client w)) = clients w
   \<and> clients (snd (get_pod_resources_client w)) = clients w
   \<and> clients (snd (get_compute_client w)) = clients w"
proof (intro conjI impI)
  assume "k \<noteq> NEUTRON_CLIENT"
  then show "clients (snd (setup_neutron_client env w)) k = clients w k"
    by (simp add: clients_setup_neutron_client split: sum.splits)
next
  assume "k \<noteq> KUBERNETES_CLIENT"
  then show "clients (snd (setup_kubernetes_client env w)) k = clients w k"
    by (simp add: clients_setup_kubernetes_client split: sum.splits)
next
  assume "k \<noteq> OPENSTACKSDK"
  then show "clients (snd (setup_openstacksdk env w)) k = clients w k"
    by (simp add: clients_setup_openstacksdk)
next
  assume "k \<noteq> POD_RESOURCES_CLIENT"
  then show "clients (snd (setup_pod_resources_client env w)) k = clients w k"
    by (simp add: clients_setup_pod_resources_client)
next
  assume "k \<noteq> NEUTRON_CLIENT \<and> k \<noteq> KUBERNETES_CLIENT \<and> k \<noteq> OPENSTACKSDK"
  then show "clients (snd (setup_clients env w)) k = clients w k"
    by (simp add: clients_setup_clients)
next
  show "clients (snd (setup_clients env w)) POD_RESOURCES_CLIENT =
      clients w POD_RESOURCES_CLIENT"
    by (rule clients_setup_clients) (simp_all add: key_defs)
next
  show "clients (snd (get_network_client w)) = clients w"
    by (simp add: get_network_client_def split: sum.splits)
next
  show "clients (snd (get_neutron_client w)) = clients w"
    by (simp add: get_neutron_client_def removals_remove_def)
next
  show "clients (snd (get_openstacksdk w)) = clients w"
    by (simp add: get_openstacksdk_def)
next
  show "clients (snd (get_loadbalancer_client w)) = clients w"
    by (simp add: get_loadbalancer_client_def get_openstacksdk_def split: sum.splits)
next
  show "clients (snd (get_kubernetes_client w)) = clients w"
    by (simp add: get_kubernetes_client_def)
next
  show "clients (snd (get_pod_resources_client w)) = clients w"
    by (simp add: get_pod_resources_client_def)
next
  show "clients (snd (get_compute_client w)) = clients w"
    by (simp add: get_compute_client_def split: sum.splits)
qed

theorem setup_writes_only_its_own_entry_witness:
  "clients (snd (setup_neutron_client (example_env None (pod_vars ''::1'' ''443''))
      initial_world)) KUBERNETES_CLIENT = None
   \<and> clients (snd (setup_kubernetes_client (example_env None (pod_vars ''::1'' ''443''))
      initial_world)) OPENSTACKSDK = None
   \<and> clients (snd (setup_openstacksdk (example_env None (pod_vars ''::1'' ''443''))
      initial_world)) POD_RESOURCES_CLIENT = None
   \<and> clients (snd (setup_pod_resources_client (example_env None (pod_vars ''::1'' ''443''))
      initial_world)) NEUTRON_CLIENT = None
   \<and> clients (snd (setup_clients (example_env None (pod_vars ''::1'' ''443''))
      initial_world)) POD_RESOURCES_CLIENT = None
   \<and> dom (clients (snd (setup_clients (example_env None (pod_vars ''::1'' ''443''))
      initial_world))) = {NEUTRON_CLIENT, KUBERNETES_CLIENT, OPENSTACKSDK}"
proof -
  let ?env = "example_env None (pod_vars ''::1'' ''443'')"
  have e: "clients initial_world = Map.empty"
    by (simp add: initial_world_def)
  have d: "dom (clients (snd (setup_clients ?env initial_world))) =
      {NEUTRON_CLIENT, KUBERNETES_CLIENT, OPENSTACKSDK}"
    by (auto simp: setup_clients_example)
  show ?thesis
    using setup_writes_only_its_own_entry [of KUBERNETES_CLIENT ?env initial_world]
      setup_writes_only_its_own_entry [of OPENSTACKSDK ?env initial_world]
      setup_writes_only_its_own_entry [of POD_RESOURCES_CLIENT ?env initial_world]
      setup_writes_only_its_own_entry [of NEUTRON_CLIENT ?env initial_world]
      e d
    by (simp add: key_defs)
qed

end
